theory Spec2Isabelle
  imports
    Complex_Main
    "HOL-Library.Char_ord"
    "HOL-Library.List_Lexorder"
    "HOL-Library.Product_Lexorder"
begin

section \<open>Exceptions\<close>

text \<open>
  The Python exceptions that the modelled code can raise. A function that may raise
  returns \<open>exn + 'a\<close>, with \<open>Inl\<close> for the exception.
\<close>

datatype exn =
    KeyError
  | ValueError
  | IndexError
  | ZeroDivisionError
  | AttributeError
  | NotFittedError
  | FileNotFoundError

section \<open>Timestamps\<close>

text \<open>
  The source receives timestamps as strings in the format \<^verbatim>\<open>%Y-%m-%d %H:%M:%S\<close> and
  parses them with \<^verbatim>\<open>datetime.strptime\<close>. A timestamp string is represented here by
  the six numbers written in it; \<open>strptime\<close> is the range check that the library performs
  on them (a string that fails it raises \<^verbatim>\<open>ValueError\<close>). The parsed \<^verbatim>\<open>datetime\<close> is the
  same record, with microseconds always zero.
\<close>

record timestamp =
  year :: nat
  month :: nat
  day :: nat
  hour :: nat
  minute :: nat
  second :: nat

definition is_leap :: "nat \<Rightarrow> bool" where
  "is_leap y = (y mod 4 = 0 \<and> (y mod 100 \<noteq> 0 \<or> y mod 400 = 0))"

definition days_in_month :: "nat \<Rightarrow> nat \<Rightarrow> nat" where
  "days_in_month y m =
     (if m = 2 then (if is_leap y then 29 else 28)
      else if m = 4 \<or> m = 6 \<or> m = 9 \<or> m = 11 then 30 else 31)"

definition valid_timestamp :: "timestamp \<Rightarrow> bool" where
  "valid_timestamp t =
     (1 \<le> year t \<and> year t \<le> 9999 \<and> 1 \<le> month t \<and> month t \<le> 12 \<and>
      1 \<le> day t \<and> day t \<le> days_in_month (year t) (month t) \<and>
      hour t \<le> 23 \<and> minute t \<le> 59 \<and> second t \<le> 59)"

definition strptime :: "timestamp \<Rightarrow> exn + timestamp" where
  "strptime s = (if valid_timestamp s then Inr s else Inl ValueError)"

text \<open>
  Python compares \<^verbatim>\<open>time\<close> and \<^verbatim>\<open>datetime\<close> objects as the tuples of their fields,
  lexicographically; the order on tuples used below is the lexicographic one.
\<close>

definition time_of :: "timestamp \<Rightarrow> nat \<times> nat \<times> nat" where
  "time_of t = (hour t, minute t, second t)"

definition datetime_of :: "timestamp \<Rightarrow> nat \<times> nat \<times> nat \<times> nat \<times> nat \<times> nat" where
  "datetime_of t = (year t, month t, day t, hour t, minute t, second t)"

section \<open>Derived columns\<close>

text \<open>
  \<open>get_period_day\<close> returns one of the strings \<^verbatim>\<open>manana\<close> (written with n tilde in the source), \<^verbatim>\<open>tarde\<close>, \<^verbatim>\<open>noche\<close>, or falls
  off the end of the function and returns Python's \<^verbatim>\<open>None\<close>. The three strings are the
  constructors of \<open>period_day\<close>; \<^verbatim>\<open>None\<close> is \<open>None\<close>.
\<close>

datatype period_day = Manana | Tarde | Noche

definition get_period_day :: "timestamp \<Rightarrow> exn + period_day option" where
  "get_period_day date =
     (case strptime date of
        Inl e \<Rightarrow> Inl e
      | Inr dt \<Rightarrow>
          (let date_time = time_of dt;
               morning_min = (5, 0, 0);
               morning_max = (11, 59, 0);
               afternoon_min = (12, 0, 0);
               afternoon_max = (18, 59, 0);
               evening_min = (19, 0, 0);
               evening_max = (23, 59, 0);
               night_min = (0, 0, 0);
               night_max = (4, 59, 0)
           in if date_time > morning_min \<and> date_time < morning_max then Inr (Some Manana)
              else if date_time > afternoon_min \<and> date_time < afternoon_max then Inr (Some Tarde)
              else if (date_time > evening_min \<and> date_time < evening_max) \<or>
                      (date_time > night_min \<and> date_time < night_max) then Inr (Some Noche)
              else Inr None))"

text \<open>
  In \<open>is_high_season\<close> the bounds are parsed from \<^verbatim>\<open>'15-Dec'\<close> and the like with the
  format \<^verbatim>\<open>%d-%b\<close>, which leaves the time of day at 00:00:00, and then moved to the year
  of the timestamp.
\<close>

definition is_high_season :: "timestamp \<Rightarrow> exn + int" where
  "is_high_season fecha_str =
     (let fecha_ano = year fecha_str in
      case strptime fecha_str of
        Inl e \<Rightarrow> Inl e
      | Inr dt \<Rightarrow>
          (let fecha = datetime_of dt;
               range1_min = (fecha_ano, 12, 15, 0, 0, 0);
               range1_max = (fecha_ano, 12, 31, 0, 0, 0);
               range2_min = (fecha_ano, 1, 1, 0, 0, 0);
               range2_max = (fecha_ano, 3, 3, 0, 0, 0);
               range3_min = (fecha_ano, 7, 15, 0, 0, 0);
               range3_max = (fecha_ano, 7, 31, 0, 0, 0);
               range4_min = (fecha_ano, 9, 11, 0, 0, 0);
               range4_max = (fecha_ano, 9, 30, 0, 0, 0)
           in if (fecha \<ge> range1_min \<and> fecha \<le> range1_max) \<or>
                 (fecha \<ge> range2_min \<and> fecha \<le> range2_max) \<or>
                 (fecha \<ge> range3_min \<and> fecha \<le> range3_max) \<or>
                 (fecha \<ge> range4_min \<and> fecha \<le> range4_max)
              then Inr 1 else Inr 0))"

text \<open>
  Subtracting two \<^verbatim>\<open>datetime\<close> objects gives a \<^verbatim>\<open>timedelta\<close> of the difference of their
  proleptic Gregorian ordinals in days and the difference of their seconds since midnight;
  \<^verbatim>\<open>total_seconds\<close> is the whole in seconds. Python then divides by 60 in floating
  point; the quotient is taken here as the exact rational number.
\<close>

definition days_before_year :: "nat \<Rightarrow> int" where
  "days_before_year y =
     (let y1 = int y - 1 in y1 * 365 + y1 div 4 - y1 div 100 + y1 div 400)"

definition days_before_month :: "nat \<Rightarrow> nat \<Rightarrow> int" where
  "days_before_month y m =
     [0, 0, 31, 59, 90, 120, 151, 181, 212, 243, 273, 304, 334] ! m +
     (if m > 2 \<and> is_leap y then 1 else 0)"

definition toordinal :: "timestamp \<Rightarrow> int" where
  "toordinal t = days_before_year (year t) + days_before_month (year t) (month t) + int (day t)"

definition seconds_of_day :: "timestamp \<Rightarrow> int" where
  "seconds_of_day t = int (second t) + int (minute t) * 60 + int (hour t) * 3600"

definition total_seconds :: "timestamp \<Rightarrow> timestamp \<Rightarrow> int" where
  "total_seconds a b =
     (toordinal a - toordinal b) * 86400 + (seconds_of_day a - seconds_of_day b)"

text \<open>
  \<open>get_min_diff\<close> reads the actual departure \<^verbatim>\<open>Fecha-O\<close> and the scheduled departure
  \<^verbatim>\<open>Fecha-I\<close> of one row, in that order.
\<close>

definition get_min_diff :: "timestamp \<times> timestamp \<Rightarrow> exn + rat" where
  "get_min_diff data =
     (case strptime (fst data) of
        Inl e \<Rightarrow> Inl e
      | Inr fecha_o \<Rightarrow>
          (case strptime (snd data) of
             Inl e \<Rightarrow> Inl e
           | Inr fecha_i \<Rightarrow> Inr (of_int (total_seconds fecha_o fecha_i) / 60)))"

text \<open>The date of a timestamp, for the order of the calendar.\<close>

definition date_of :: "timestamp \<Rightarrow> nat \<times> nat \<times> nat" where
  "date_of t = (year t, month t, day t)"

section \<open>One-hot encoding\<close>

text \<open>
  A frame of indicator columns, as \<^verbatim>\<open>pd.get_dummies\<close> and \<^verbatim>\<open>pd.concat(..., axis = 1)\<close>
  build it: the columns in order, each with its name and one value per row.
\<close>

type_synonym features = "(string \<times> int list) list"

text \<open>Python's \<^verbatim>\<open>str\<close> of an integer, used for the names of the \<^verbatim>\<open>MES\<close> columns.\<close>

fun digits :: "nat \<Rightarrow> string" where
  "digits n =
     (if n < 10 then [''0123456789'' ! n]
      else digits (n div 10) @ [''0123456789'' ! (n mod 10)])"

declare digits.simps [simp del]

definition str_int :: "int \<Rightarrow> string" where
  "str_int i = (if i < 0 then CHR ''-'' # digits (nat (- i)) else digits (nat i))"

text \<open>
  \<^verbatim>\<open>pd.get_dummies(column, prefix = p)\<close>: one indicator column for each distinct value of
  the column, in sorted order of the values, named \<^verbatim>\<open>p_value\<close>. A column without rows
  gives a frame without columns. The indicators are written 1 and 0; recent versions of
  pandas give booleans, which the classifier reads as 1 and 0.
\<close>

definition get_dummies :: "('a::linorder \<Rightarrow> string) \<Rightarrow> 'a list \<Rightarrow> string \<Rightarrow> features" where
  "get_dummies str column prefix =
     map (\<lambda>v. (prefix @ ''_'' @ str v, map (\<lambda>x. if x = v then 1 else 0) column))
       (sort (remdups column))"

section \<open>The model object and the files it uses\<close>

text \<open>
  A \<^verbatim>\<open>LogisticRegression\<close> is a library object. It is represented by the class weights
  it was constructed with and by what fitting has given it: nothing as long as it is
  not fitted, and afterwards the function from a feature row to the label that its
  \<^verbatim>\<open>predict\<close> gives for that row. The attribute \<^verbatim>\<open>_model\<close> of the model object is
  \<^verbatim>\<open>None\<close> or such an estimator.
\<close>

type_synonym classifier = "int list \<Rightarrow> int"

datatype estimator = LogisticRegression "(int \<times> rat) list" "classifier option"

record delay_model =
  model :: "estimator option"
  top_10_features :: "string list"
  THRESHOLD_IN_MINUTES :: int

text \<open>
  The two pickle files under \<^verbatim>\<open>data/\<close>, each absent or holding the object last dumped,
  and the sequence of file operations performed so far. Opening a file for writing is
  taken to succeed.
\<close>

datatype io = Load string | Dump string

record world =
  model_h5 :: "estimator option"
  all_features_p :: "features option"
  trace :: "io list"

text \<open>
  \<^verbatim>\<open>DelayModel.__init__\<close>: the model is unpickled from \<^verbatim>\<open>data/model.h5\<close>; any failure of
  that is caught and leaves the attribute \<^verbatim>\<open>None\<close>.
\<close>

definition DelayModel :: "world \<Rightarrow> world \<times> delay_model" where
  "DelayModel w =
     (w\<lparr>trace := trace w @ [Load ''data/model.h5'']\<rparr>,
      \<lparr>model = model_h5 w,
       top_10_features =
         [''OPERA_Latin American Wings'',
          ''MES_7'',
          ''MES_10'',
          ''OPERA_Grupo LATAM'',
          ''MES_12'',
          ''TIPOVUELO_I'',
          ''MES_4'',
          ''MES_11'',
          ''OPERA_Sky Airline'',
          ''OPERA_Copa Air''],
       THRESHOLD_IN_MINUTES = 15\<rparr>)"

section \<open>Preprocessing\<close>

text \<open>
  The \<^verbatim>\<open>DataFrame\<close> handed to \<open>preprocess\<close>: the columns that the method reads or writes,
  each absent (\<open>None\<close>) or present with one cell per row, and the columns of any other
  name in \<open>others\<close>. The columns \<^verbatim>\<open>OPERA\<close>, \<^verbatim>\<open>TIPOVUELO\<close> and \<^verbatim>\<open>MES\<close> carry the suffix
  \<open>_col\<close> to keep them apart from the fields of a flight request. The rows of the frame
  are the cells of \<^verbatim>\<open>Fecha-I\<close>.
\<close>

record dataframe =
  Fecha_I :: "timestamp list option"
  Fecha_O :: "timestamp list option"
  OPERA_col :: "string list option"
  TIPOVUELO_col :: "string list option"
  MES_col :: "int list option"
  period_day :: "period_day option list option"
  high_season :: "int list option"
  min_diff :: "rat list option"
  delay :: "int list option"
  others :: "string \<rightharpoonup> string list"

text \<open>\<^verbatim>\<open>Series.apply\<close> and the row-wise \<^verbatim>\<open>DataFrame.apply\<close>: the first exception ends the call.\<close>

fun series_apply :: "('a \<Rightarrow> exn + 'b) \<Rightarrow> 'a list \<Rightarrow> exn + 'b list" where
  "series_apply f [] = Inr []"
| "series_apply f (x # xs) =
     (case f x of
        Inl e \<Rightarrow> Inl e
      | Inr y \<Rightarrow> (case series_apply f xs of Inl e \<Rightarrow> Inl e | Inr ys \<Rightarrow> Inr (y # ys)))"

text \<open>The \<^verbatim>\<open>np.where(data['min_diff'] > self.THRESHOLD_IN_MINUTES, 1, 0)\<close> of \<open>preprocess\<close>, per row.\<close>

definition delay_of :: "delay_model \<Rightarrow> rat \<Rightarrow> int" where
  "delay_of self d = (if d > of_int (THRESHOLD_IN_MINUTES self) then 1 else 0)"

text \<open>
  \<^verbatim>\<open>features[names]\<close>: the named columns in the order asked for; \<^verbatim>\<open>KeyError\<close> when one
  of them is not a column of the frame.
\<close>

definition select_columns :: "features \<Rightarrow> string list \<Rightarrow> exn + features" where
  "select_columns features names =
     (if \<forall>c \<in> set names. c \<in> fst ` set features
      then Inr (map (\<lambda>c. (c, the (map_of features c))) names)
      else Inl KeyError)"

datatype preprocessed = Features features | Features_Target features "int list"

text \<open>
  \<open>preprocess\<close> assigns four columns to the frame of its caller, one after the other;
  the frame is returned as it stands when the method returns or raises. The target
  column is asked for when \<open>target_column\<close> is a non-empty string. On a frame without
  rows the row-wise \<^verbatim>\<open>apply\<close> returns a frame, not a column, and assigning a frame of
  several columns to the column \<^verbatim>\<open>min_diff\<close> raises \<^verbatim>\<open>ValueError\<close> (pandas from version
  1.5; what earlier versions do there is not modelled).
\<close>

definition preprocess ::
  "delay_model \<Rightarrow> world \<Rightarrow> dataframe \<Rightarrow> string option \<Rightarrow> world \<times> dataframe \<times> (exn + preprocessed)" where
  "preprocess self w data target_column =
     (case Fecha_I data of
        None \<Rightarrow> (w, data, Inl KeyError)
      | Some fecha_i \<Rightarrow>
     (case series_apply get_period_day fecha_i of
        Inl e \<Rightarrow> (w, data, Inl e)
      | Inr pd \<Rightarrow>
     (let data1 = data\<lparr>period_day := Some pd\<rparr> in
      case series_apply is_high_season fecha_i of
        Inl e \<Rightarrow> (w, data1, Inl e)
      | Inr hs \<Rightarrow>
     (let data2 = data1\<lparr>high_season := Some hs\<rparr> in
      if fecha_i = [] then (w, data2, Inl ValueError) else
      case Fecha_O data2 of
        None \<Rightarrow> (w, data2, Inl KeyError)
      | Some fecha_o \<Rightarrow>
     (case series_apply get_min_diff (zip fecha_o fecha_i) of
        Inl e \<Rightarrow> (w, data2, Inl e)
      | Inr md \<Rightarrow>
     (let data3 = data2\<lparr>min_diff := Some md\<rparr>;
          data4 = data3\<lparr>delay := Some (map (delay_of self) md)\<rparr> in
      case OPERA_col data4 of
        None \<Rightarrow> (w, data4, Inl KeyError)
      | Some opera \<Rightarrow>
     (case TIPOVUELO_col data4 of
        None \<Rightarrow> (w, data4, Inl KeyError)
      | Some tipovuelo \<Rightarrow>
     (case MES_col data4 of
        None \<Rightarrow> (w, data4, Inl KeyError)
      | Some mes \<Rightarrow>
     (let features =
            get_dummies id opera ''OPERA'' @
            get_dummies id tipovuelo ''TIPOVUELO'' @
            get_dummies str_int mes ''MES'';
          w1 = w\<lparr>all_features_p := Some features,
                 trace := trace w @ [Dump ''data/all_features.p'']\<rparr> in
      case select_columns features (top_10_features self) of
        Inl e \<Rightarrow> (w1, data4, Inl e)
      | Inr selected \<Rightarrow>
          (if target_column \<noteq> None \<and> target_column \<noteq> Some []
           then (w1, data4, Inr (Features_Target selected (map (delay_of self) md)))
           else (w1, data4, Inr (Features selected))))))))))))"

section \<open>Training and prediction\<close>

text \<open>
  The class weights that \<open>fit\<close> passes to \<^verbatim>\<open>LogisticRegression\<close>, a dictionary with the
  keys 1 and 0 in that order; the divisions are Python's true division of integers,
  taken here as exact rationals. \<open>target\<close> is the one column of the target frame.
\<close>

definition class_weight :: "int list \<Rightarrow> exn + (int \<times> rat) list" where
  "class_weight target =
     (let n_y0 = length (filter (\<lambda>y. y = 0) target);
          n_y1 = length (filter (\<lambda>y. y = 1) target)
      in if length target = 0 then Inl ZeroDivisionError
         else Inr [(1, of_nat n_y0 / of_nat (length target)),
                   (0, of_nat n_y1 / of_nat (length target))])"

text \<open>
  \<open>fit\<close>. The estimator constructed with the class weights is assigned to the model
  attribute and then fitted. The library's fitting is the parameter \<open>train\<close>: from the
  class weights of the estimator, the features and the target it gives the fitted
  function, or raises (as it does with \<^verbatim>\<open>ValueError\<close> for a target of one class). When it
  raises, the attribute is left with the estimator that is not fitted and nothing is
  dumped; otherwise the fitted estimator is dumped to \<^verbatim>\<open>data/model.h5\<close>.
\<close>

definition fit ::
  "((int \<times> rat) list \<Rightarrow> features \<Rightarrow> int list \<Rightarrow> exn + classifier) \<Rightarrow>
   delay_model \<Rightarrow> world \<Rightarrow> features \<Rightarrow> int list \<Rightarrow> world \<times> delay_model \<times> (exn + unit)" where
  "fit train self w features target =
     (case class_weight target of
        Inl e \<Rightarrow> (w, self, Inl e)
      | Inr cw \<Rightarrow>
          (let self1 = self\<lparr>model := Some (LogisticRegression cw None)\<rparr> in
           case train cw features target of
             Inl e \<Rightarrow> (w, self1, Inl e)
           | Inr fitted \<Rightarrow>
               (w\<lparr>model_h5 := Some (LogisticRegression cw (Some fitted)),
                  trace := trace w @ [Dump ''data/model.h5'']\<rparr>,
                self1\<lparr>model := Some (LogisticRegression cw (Some fitted))\<rparr>,
                Inr ())))"

text \<open>
  \<open>predict\<close> on the rows of a frame: one label per row. Without a model the attribute
  is \<^verbatim>\<open>None\<close> and the call of its \<^verbatim>\<open>predict\<close> raises \<^verbatim>\<open>AttributeError\<close>; an estimator that
  is not fitted raises \<^verbatim>\<open>NotFittedError\<close>.
\<close>

definition predict :: "delay_model \<Rightarrow> int list list \<Rightarrow> exn + int list" where
  "predict self rows =
     (case model self of
        None \<Rightarrow> Inl AttributeError
      | Some (LogisticRegression cw None) \<Rightarrow> Inl NotFittedError
      | Some (LogisticRegression cw (Some predicted_target)) \<Rightarrow>
          Inr (map predicted_target rows))"

section \<open>Serving a request\<close>

text \<open>
  A flight of a request: the dictionary with the keys \<^verbatim>\<open>OPERA\<close>, \<^verbatim>\<open>TIPOVUELO\<close> and
  \<^verbatim>\<open>MES\<close> of the body of \<^verbatim>\<open>POST /predict\<close>.
\<close>

record flight =
  OPERA :: string
  TIPOVUELO :: string
  MES :: int

definition startswith :: "string \<Rightarrow> string \<Rightarrow> bool" where
  "startswith s p = (take (length p) s = p)"

text \<open>
  \<^verbatim>\<open>s.replace(old, new)\<close> for a non-empty \<open>old\<close>: every occurrence found from left to
  right, without overlap, is replaced.
\<close>

function replace :: "string \<Rightarrow> string \<Rightarrow> string \<Rightarrow> string" where
  "replace s old new =
     (if s = [] then []
      else if old \<noteq> [] \<and> startswith s old then new @ replace (drop (length old) s) old new
      else hd s # replace (tl s) old new)"
  by pat_completeness auto
termination
  by (relation "measure (\<lambda>(s, old, new). length s)") (auto simp: startswith_def)

declare replace.simps [simp del]

text \<open>The airlines known to \<open>check_response\<close>, from the columns of the pickled frame.\<close>

definition replace_opera :: "features \<Rightarrow> string list" where
  "replace_opera features =
     (let opera_columns = filter (\<lambda>col. startswith col ''OPERA'') (map fst features)
      in map (\<lambda>col. replace col ''OPERA_'' []) opera_columns)"

text \<open>
  The first loop of \<open>check_response\<close>: the first flight with a wrong value ends it with
  a pair of the field and a message; otherwise the flight is appended to \<open>data_df\<close>.
\<close>

fun check_flights :: "string list \<Rightarrow> flight list \<Rightarrow> flight list \<Rightarrow> (string \<times> string) + flight list" where
  "check_flights known [] data_df = Inr data_df"
| "check_flights known (flight # flights) data_df =
     (if MES flight > 12 \<or> MES flight < 1 then Inl (''MES'', ''Column MES not found'')
      else if \<not> (TIPOVUELO flight = ''N'' \<or> TIPOVUELO flight = ''I'')
        then Inl (''TIPOVUELO'', ''Column TIPOVUELO not found'')
      else if OPERA flight \<notin> set known then Inl (''OPERA'', ''Column OPERA not found'')
      else check_flights known flights (data_df @ [flight]))"

text \<open>\<^verbatim>\<open>names.index(col)\<close>; it is called for members of the list only.\<close>

fun index :: "'a list \<Rightarrow> 'a \<Rightarrow> nat" where
  "index [] x = 0"
| "index (y # ys) x = (if y = x then 0 else Suc (index ys x))"

text \<open>
  The second loop of \<open>check_response\<close>, over the columns of \<open>features_df\<close>: the value of
  a column in its first row is written into the one row of \<open>data_predict\<close>.
\<close>

fun fill_data_predict :: "string list \<Rightarrow> features \<Rightarrow> int list \<Rightarrow> exn + int list" where
  "fill_data_predict names [] row = Inr row"
| "fill_data_predict names ((col, vals) # cols) row =
     (if col \<in> set names then
        (case vals of
           [] \<Rightarrow> Inl IndexError
         | v # _ \<Rightarrow> fill_data_predict names cols (row[index names col := v]))
      else fill_data_predict names cols row)"

text \<open>
  \<open>check_response\<close> returns a pair of strings or a list of labels. The frame built from
  \<open>data_predict\<close> is handed to \<open>predict\<close> as its rows.
\<close>

datatype response = Invalid string string | Labels "int list"

definition check_response :: "delay_model \<Rightarrow> world \<Rightarrow> flight list \<Rightarrow> world \<times> (exn + response)" where
  "check_response self w flights =
     (let w1 = w\<lparr>trace := trace w @ [Load ''data/all_features.p'']\<rparr> in
      case all_features_p w of
        None \<Rightarrow> (w1, Inl FileNotFoundError)
      | Some features \<Rightarrow>
          (case check_flights (replace_opera features) flights [] of
             Inl (field, message) \<Rightarrow> (w1, Inr (Invalid field message))
           | Inr data_df \<Rightarrow>
               (let features_df =
                      get_dummies id (map OPERA data_df) ''OPERA'' @
                      get_dummies id (map TIPOVUELO data_df) ''TIPOVUELO'' @
                      get_dummies str_int (map MES data_df) ''MES''
                in case fill_data_predict (top_10_features self) features_df
                          (replicate (length (top_10_features self)) 0) of
                     Inl e \<Rightarrow> (w1, Inl e)
                   | Inr row \<Rightarrow>
                       (case predict self [row] of
                          Inl e \<Rightarrow> (w1, Inl e)
                        | Inr labels \<Rightarrow> (w1, Inr (Labels labels))))))"

text \<open>
  The handler of \<^verbatim>\<open>POST /predict\<close>. An exception that the handler does not catch is
  \<open>Unhandled\<close>; the framework answers it with status 500.
\<close>

datatype http = OK response | HTTPException nat string | Unhandled exn

definition post_predict :: "world \<Rightarrow> flight list \<Rightarrow> world \<times> http" where
  "post_predict w flights =
     (let (w1, self) = DelayModel w;
          (w2, r) = check_response self w1 flights
      in case r of
           Inl e \<Rightarrow> (w2, Unhandled e)
         | Inr (Labels labels) \<Rightarrow> (w2, OK (Labels labels))
         | Inr (Invalid field message) \<Rightarrow>
             (if field = ''MES''
                then (w2, HTTPException 400 ''Value in column MES is incorrect'')
              else if field = ''TIPOVUELO''
                then (w2, HTTPException 400 ''Value in column TIPOVUELO is incorrect'')
              else if field = ''OPERA''
                then (w2, HTTPException 400 ''Value in column OPERA is incorrect'')
              else (w2, OK (Invalid field message))))"

section \<open>Validation as the specification words it\<close>

text \<open>
  The validation of one record as the specification describes it: \<^verbatim>\<open>MES\<close> within 1..12,
  then \<^verbatim>\<open>TIPOVUELO\<close> among \<^verbatim>\<open>N\<close> and \<^verbatim>\<open>I\<close>, then \<^verbatim>\<open>OPERA\<close> among the known airlines; the
  result names the first field that fails. For a batch, the first record with a failing
  field decides.
\<close>

definition spec_validate :: "string list \<Rightarrow> flight \<Rightarrow> string option" where
  "spec_validate known r =
     (if \<not> (1 \<le> MES r \<and> MES r \<le> 12) then Some ''MES''
      else if TIPOVUELO r \<notin> {''N'', ''I''} then Some ''TIPOVUELO''
      else if OPERA r \<notin> set known then Some ''OPERA''
      else None)"

fun spec_first_error :: "string list \<Rightarrow> flight list \<Rightarrow> string option" where
  "spec_first_error known [] = None"
| "spec_first_error known (r # rs) =
     (case spec_validate known r of Some field \<Rightarrow> Some field | None \<Rightarrow> spec_first_error known rs)"

section \<open>Encoding as the specification words it\<close>

text \<open>
  The encoding as the specification describes it: a record has the three one-hot columns
  of its airline, its flight type and its month, and its feature vector has, for each
  column of the vocabulary in order, 1 when the column is one of them and 0 otherwise.
\<close>

definition one_hot :: "string \<Rightarrow> string \<Rightarrow> int \<Rightarrow> string list" where
  "one_hot opera tipovuelo mes =
     [''OPERA_'' @ opera, ''TIPOVUELO_'' @ tipovuelo, ''MES_'' @ str_int mes]"

definition project :: "string list \<Rightarrow> string list \<Rightarrow> int list" where
  "project vocabulary columns = map (\<lambda>c. if c \<in> set columns then 1 else 0) vocabulary"

text \<open>The row \<open>i\<close> of a frame, and the frame that \<open>preprocess\<close> returns.\<close>

definition row_of :: "features \<Rightarrow> nat \<Rightarrow> int list" where
  "row_of frame i = map (\<lambda>(c, vals). vals ! i) frame"

fun features_of :: "preprocessed \<Rightarrow> features" where
  "features_of (Features selected) = selected"
| "features_of (Features_Target selected target) = selected"

text \<open>
  The frame that \<open>preprocess\<close> and \<open>check_response\<close> build from the three columns, and
  the value of a frame in a named column and a row, 0 when there is no such column.
\<close>

abbreviation encoded :: "string list \<Rightarrow> string list \<Rightarrow> int list \<Rightarrow> features" where
  "encoded opera tipovuelo mes \<equiv>
     get_dummies id opera ''OPERA'' @
     get_dummies id tipovuelo ''TIPOVUELO'' @
     get_dummies str_int mes ''MES''"

definition cell :: "features \<Rightarrow> string \<Rightarrow> nat \<Rightarrow> int" where
  "cell frame c i = (case map_of frame c of Some vals \<Rightarrow> vals ! i | None \<Rightarrow> 0)"

section \<open>Example data\<close>

text \<open>
  A pickled frame of two training rows and a world whose model is a fitted estimator
  with the classifier \<open>sum_list\<close>, which labels a row with the number of ones in it.
\<close>

abbreviation example_features :: features where
  "example_features \<equiv>
     [(''OPERA_Aerolineas Argentinas'', [0, 1]), (''OPERA_Grupo LATAM'', [1, 0]),
      (''TIPOVUELO_I'', [0, 1]), (''TIPOVUELO_N'', [1, 0]),
      (''MES_3'', [1, 0]), (''MES_7'', [0, 1])]"

abbreviation example_world :: world where
  "example_world \<equiv>
     \<lparr>model_h5 = Some (LogisticRegression [(1, 3 / 4), (0, 1 / 4)] (Some sum_list)),
      all_features_p = Some example_features, trace = []\<rparr>"

text \<open>
  A frame of five flights in which every column of the vocabulary occurs. The fourth
  flight is scheduled at 05:00:00 sharp and leaves two minutes early; the fifth leaves
  exactly 15 minutes late.
\<close>

abbreviation example_frame :: dataframe where
  "example_frame \<equiv>
     \<lparr>Fecha_I = Some
        [\<lparr>year = 2023, month = 7, day = 15, hour = 6, minute = 0, second = 0\<rparr>,
         \<lparr>year = 2023, month = 10, day = 2, hour = 13, minute = 0, second = 0\<rparr>,
         \<lparr>year = 2023, month = 12, day = 20, hour = 20, minute = 0, second = 0\<rparr>,
         \<lparr>year = 2023, month = 4, day = 3, hour = 5, minute = 0, second = 0\<rparr>,
         \<lparr>year = 2023, month = 11, day = 11, hour = 12, minute = 30, second = 0\<rparr>],
      Fecha_O = Some
        [\<lparr>year = 2023, month = 7, day = 15, hour = 6, minute = 20, second = 0\<rparr>,
         \<lparr>year = 2023, month = 10, day = 2, hour = 13, minute = 5, second = 0\<rparr>,
         \<lparr>year = 2023, month = 12, day = 20, hour = 20, minute = 30, second = 0\<rparr>,
         \<lparr>year = 2023, month = 4, day = 3, hour = 4, minute = 58, second = 0\<rparr>,
         \<lparr>year = 2023, month = 11, day = 11, hour = 12, minute = 45, second = 0\<rparr>],
      OPERA_col = Some [''Latin American Wings'', ''Grupo LATAM'', ''Sky Airline'', ''Copa Air'',
                        ''Grupo LATAM''],
      TIPOVUELO_col = Some [''I'', ''N'', ''N'', ''I'', ''N''],
      MES_col = Some [7, 10, 12, 4, 11],
      period_day = None,
      high_season = None,
      min_diff = None,
      delay = None,
      others = Map.empty\<rparr>"

text \<open>A frame of one flight whose airline, type and month are outside the vocabulary.\<close>

abbreviation example_single_flight :: dataframe where
  "example_single_flight \<equiv>
     \<lparr>Fecha_I = Some [\<lparr>year = 2023, month = 3, day = 5, hour = 10, minute = 0, second = 0\<rparr>],
      Fecha_O = Some [\<lparr>year = 2023, month = 3, day = 5, hour = 10, minute = 20, second = 0\<rparr>],
      OPERA_col = Some [''Aerolineas Argentinas''],
      TIPOVUELO_col = Some [''N''],
      MES_col = Some [3],
      period_day = None,
      high_season = None,
      min_diff = None,
      delay = None,
      others = Map.empty\<rparr>"

text \<open>A fitting that gives the classifier \<open>sum_list\<close> whatever the data.\<close>

definition example_train :: "(int \<times> rat) list \<Rightarrow> features \<Rightarrow> int list \<Rightarrow> exn + classifier" where
  "example_train cw features target = Inr sum_list"

section \<open>Period of the day\<close>

lemma strptime_valid: "valid_timestamp t \<Longrightarrow> strptime t = Inr t"
  by (simp add: strptime_def)

text \<open>
  With minutes and seconds below 60, the order on the triples of hour, minute and second
  is the order on the seconds since midnight.
\<close>

lemma time_less_iff:
  fixes h m s h' m' s' :: nat
  assumes "m \<le> 59" "s \<le> 59" "m' \<le> 59" "s' \<le> 59"
  shows "((h, m, s) < (h', m', s')) =
         (int s + int m * 60 + int h * 3600 < int s' + int m' * 60 + int h' * 3600)"
proof -
  have "((h, m, s) < (h', m', s')) = (h < h' \<or> (h = h' \<and> (m < m' \<or> (m = m' \<and> s < s'))))"
    by (auto simp: less_prod_def)
  also have "\<dots> = (int s + int m * 60 + int h * 3600 < int s' + int m' * 60 + int h' * 3600)"
    using assms by linarith
  finally show ?thesis .
qed

lemma time_of_less:
  assumes "valid_timestamp t" "m' \<le> 59"
  shows "(time_of t < (h', m', 0)) = (seconds_of_day t < int m' * 60 + int h' * 3600)"
    and "((h', m', 0) < time_of t) = (int m' * 60 + int h' * 3600 < seconds_of_day t)"
proof -
  have b: "minute t \<le> 59" "second t \<le> 59"
    using assms by (simp_all add: valid_timestamp_def)
  show "(time_of t < (h', m', 0)) = (seconds_of_day t < int m' * 60 + int h' * 3600)"
    using time_less_iff[of "minute t" "second t" m' 0 "hour t" h'] b assms(2)
    by (simp add: time_of_def seconds_of_day_def)
  show "((h', m', 0) < time_of t) = (int m' * 60 + int h' * 3600 < seconds_of_day t)"
    using time_less_iff[of m' 0 "minute t" "second t" h' "hour t"] b assms(2)
    by (simp add: time_of_def seconds_of_day_def)
qed

lemma seconds_of_day_range:
  assumes "valid_timestamp t"
  shows "0 \<le> seconds_of_day t" "seconds_of_day t < 86400"
  using assms by (simp_all add: valid_timestamp_def seconds_of_day_def)

text \<open>
  C5. For a timestamp that parses, \<open>get_period_day\<close> returns a value and classifies the
  time of day by open intervals of the seconds since midnight: \<^verbatim>\<open>manana\<close> exactly
  strictly between 05:00:00 (18000 s) and 11:59:00 (43140 s), \<^verbatim>\<open>tarde\<close> exactly strictly
  between 12:00:00 (43200 s) and 18:59:00 (68340 s), \<^verbatim>\<open>noche\<close> exactly strictly between
  19:00:00 (68400 s) and 23:59:00 (86340 s) or strictly between 00:00:00 and 04:59:00
  (17940 s); it returns \<^verbatim>\<open>None\<close> exactly at the remaining times, among them the
  boundary instants 05:00:00 and 11:59:00.
\<close>

theorem get_period_day_strict_intervals:
  assumes "valid_timestamp t"
  shows "(get_period_day t = Inr (Some Manana) \<longleftrightarrow>
            18000 < seconds_of_day t \<and> seconds_of_day t < 43140) \<and>
         (get_period_day t = Inr (Some Tarde) \<longleftrightarrow>
            43200 < seconds_of_day t \<and> seconds_of_day t < 68340) \<and>
         (get_period_day t = Inr (Some Noche) \<longleftrightarrow>
            (68400 < seconds_of_day t \<and> seconds_of_day t < 86340) \<or>
            (0 < seconds_of_day t \<and> seconds_of_day t < 17940)) \<and>
         (get_period_day t = Inr None \<longleftrightarrow>
            seconds_of_day t = 0 \<or>
            (17940 \<le> seconds_of_day t \<and> seconds_of_day t \<le> 18000) \<or>
            (43140 \<le> seconds_of_day t \<and> seconds_of_day t \<le> 43200) \<or>
            (68340 \<le> seconds_of_day t \<and> seconds_of_day t \<le> 68400) \<or>
            86340 \<le> seconds_of_day t)"
proof -
  define x where "x = seconds_of_day t"
  have r: "0 \<le> x" using seconds_of_day_range[OF assms] by (simp add: x_def)
  have g: "get_period_day t =
      (if 18000 < x \<and> x < 43140 then Inr (Some Manana)
       else if 43200 < x \<and> x < 68340 then Inr (Some Tarde)
       else if (68400 < x \<and> x < 86340) \<or> (0 < x \<and> x < 17940) then Inr (Some Noche)
       else Inr None)"
    unfolding get_period_day_def strptime_valid[OF assms] x_def
    by (simp add: Let_def time_of_less[OF assms])
  show ?thesis unfolding x_def[symmetric] g using r by auto
qed

text \<open>At 2023-01-01 07:00:00 the period is \<^verbatim>\<open>manana\<close>; at 05:00:00 there is none.\<close>

theorem get_period_day_strict_intervals_witness:
  "valid_timestamp \<lparr>year = 2023, month = 1, day = 1, hour = 7, minute = 0, second = 0\<rparr> \<and>
   get_period_day \<lparr>year = 2023, month = 1, day = 1, hour = 7, minute = 0, second = 0\<rparr>
     = Inr (Some Manana) \<and>
   valid_timestamp \<lparr>year = 2023, month = 1, day = 1, hour = 5, minute = 0, second = 0\<rparr> \<and>
   get_period_day \<lparr>year = 2023, month = 1, day = 1, hour = 5, minute = 0, second = 0\<rparr>
     = Inr None"
proof -
  have v7: "valid_timestamp \<lparr>year = 2023, month = 1, day = 1, hour = 7, minute = 0, second = 0\<rparr>"
    by (simp add: valid_timestamp_def days_in_month_def)
  have v5: "valid_timestamp \<lparr>year = 2023, month = 1, day = 1, hour = 5, minute = 0, second = 0\<rparr>"
    by (simp add: valid_timestamp_def days_in_month_def)
  show ?thesis
    using v7 v5 get_period_day_strict_intervals[OF v7] get_period_day_strict_intervals[OF v5]
    by (simp add: seconds_of_day_def)
qed

section \<open>High season\<close>

text \<open>
  C4. The last day of a range counts as high season at midnight only: the upper bounds
  are the instants 00:00:00 of 31 December, 3 March, 31 July and 30 September. At
  2023-12-31 10:00:00 \<open>is_high_season\<close> returns 0, and at 2023-12-31 00:00:00 it
  returns 1.
\<close>

theorem is_high_season_last_day:
  "is_high_season \<lparr>year = 2023, month = 12, day = 31, hour = 10, minute = 0, second = 0\<rparr> = Inr 0 \<and>
   is_high_season \<lparr>year = 2023, month = 12, day = 31, hour = 0, minute = 0, second = 0\<rparr> = Inr 1"
  by (simp add: is_high_season_def strptime_def valid_timestamp_def days_in_month_def
      is_leap_def datetime_of_def Let_def less_eq_prod_def less_prod_def)

section \<open>Validation of a batch\<close>

lemma check_flights_spec:
  "check_flights known flights data_df =
     (case spec_first_error known flights of
        Some field \<Rightarrow> Inl (field, ''Column '' @ field @ '' not found'')
      | None \<Rightarrow> Inr (data_df @ flights))"
  by (induction flights arbitrary: data_df) (auto simp: spec_validate_def split: option.splits)

lemma spec_first_error_field:
  "spec_first_error known flights = Some field \<Longrightarrow>
     field = ''MES'' \<or> field = ''TIPOVUELO'' \<or> field = ''OPERA''"
  by (induction flights) (auto simp: spec_validate_def split: if_splits)

text \<open>
  C2. When the pickled frame can be loaded and some record of the batch fails the
  validation, taken record by record and within a record in the order \<^verbatim>\<open>MES\<close>,
  \<^verbatim>\<open>TIPOVUELO\<close>, \<^verbatim>\<open>OPERA\<close>, then \<open>check_response\<close> returns the pair naming the first
  failing field and no labels, and \<open>post_predict\<close> raises the HTTP exception with
  status 400 whose detail names that field.
\<close>

theorem batch_rejected_on_first_invalid_field:
  assumes "all_features_p w = Some features"
    and "spec_first_error (replace_opera features) flights = Some field"
  shows "snd (check_response self w flights)
           = Inr (Invalid field (''Column '' @ field @ '' not found'')) \<and>
         snd (post_predict w flights)
           = HTTPException 400 (''Value in column '' @ field @ '' is incorrect'')"
proof -
  have c: "all_features_p (fst (DelayModel w)) = Some features"
    using assms(1) by (simp add: DelayModel_def)
  have a: "\<And>self w'. all_features_p w' = Some features \<Longrightarrow>
      snd (check_response self w' flights)
        = Inr (Invalid field (''Column '' @ field @ '' not found''))"
    using assms(2) by (simp add: check_response_def check_flights_spec Let_def)
  have b: "snd (check_response (snd (DelayModel w)) (fst (DelayModel w)) flights)
      = Inr (Invalid field (''Column '' @ field @ '' not found''))"
    by (rule a[OF c])
  have "snd (post_predict w flights)
      = HTTPException 400 (''Value in column '' @ field @ '' is incorrect'')"
    using spec_first_error_field[OF assms(2)] b
    by (auto simp: post_predict_def Let_def split: prod.splits)
  with a[OF assms(1)] show ?thesis by simp
qed

text \<open>
  A batch of a valid record, a record with three wrong fields and a record with one:
  the answer names \<^verbatim>\<open>MES\<close>, the first wrong field of the second record.
\<close>

theorem batch_rejected_on_first_invalid_field_witness:
  "all_features_p example_world = Some example_features \<and>
   spec_first_error (replace_opera example_features)
     [\<lparr>OPERA = ''Grupo LATAM'', TIPOVUELO = ''N'', MES = 3\<rparr>,
      \<lparr>OPERA = ''Unknown'', TIPOVUELO = ''X'', MES = 13\<rparr>,
      \<lparr>OPERA = ''Unknown'', TIPOVUELO = ''N'', MES = 3\<rparr>] = Some ''MES'' \<and>
   snd (check_response (snd (DelayModel example_world)) example_world
     [\<lparr>OPERA = ''Grupo LATAM'', TIPOVUELO = ''N'', MES = 3\<rparr>,
      \<lparr>OPERA = ''Unknown'', TIPOVUELO = ''X'', MES = 13\<rparr>,
      \<lparr>OPERA = ''Unknown'', TIPOVUELO = ''N'', MES = 3\<rparr>])
     = Inr (Invalid ''MES'' ''Column MES not found'') \<and>
   snd (post_predict example_world
     [\<lparr>OPERA = ''Grupo LATAM'', TIPOVUELO = ''N'', MES = 3\<rparr>,
      \<lparr>OPERA = ''Unknown'', TIPOVUELO = ''X'', MES = 13\<rparr>,
      \<lparr>OPERA = ''Unknown'', TIPOVUELO = ''N'', MES = 3\<rparr>])
     = HTTPException 400 ''Value in column MES is incorrect''"
proof -
  have h1: "all_features_p example_world = Some example_features" by simp
  have h2: "spec_first_error (replace_opera example_features)
     [\<lparr>OPERA = ''Grupo LATAM'', TIPOVUELO = ''N'', MES = 3\<rparr>,
      \<lparr>OPERA = ''Unknown'', TIPOVUELO = ''X'', MES = 13\<rparr>,
      \<lparr>OPERA = ''Unknown'', TIPOVUELO = ''N'', MES = 3\<rparr>] = Some ''MES''"
    by code_simp
  show ?thesis
    using h1 h2 batch_rejected_on_first_invalid_field[OF h1 h2, of "snd (DelayModel example_world)"]
    by simp
qed

section \<open>Class weights\<close>

lemma class_weight_counts:
  assumes "target \<noteq> []"
  shows "class_weight target =
           Inr [(1, of_nat (count_list target 0) / of_nat (length target)),
                (0, of_nat (count_list target 1) / of_nat (length target))]"
    and "set target \<subseteq> {0, 1} \<Longrightarrow>
           class_weight target =
             Inr [(1, of_nat (length (filter (\<lambda>y. y \<noteq> 1) target)) / of_nat (length target)),
                  (0, of_nat (length (filter (\<lambda>y. y \<noteq> 0) target)) / of_nat (length target))]"
proof -
  have f: "\<And>c. length (filter (\<lambda>y. y = c) target) = count_list target c"
    by (induction target) auto
  have g: "set target \<subseteq> {0, 1} \<Longrightarrow> filter (\<lambda>y. y \<noteq> 1) target = filter (\<lambda>y. y = 0) target"
    "set target \<subseteq> {0, 1} \<Longrightarrow> filter (\<lambda>y. y \<noteq> 0) target = filter (\<lambda>y. y = 1) target"
    by (rule filter_cong; auto)+
  show "class_weight target =
           Inr [(1, of_nat (count_list target 0) / of_nat (length target)),
                (0, of_nat (count_list target 1) / of_nat (length target))]"
    using assms by (simp add: class_weight_def f Let_def)
  show "set target \<subseteq> {0, 1} \<Longrightarrow>
           class_weight target =
             Inr [(1, of_nat (length (filter (\<lambda>y. y \<noteq> 1) target)) / of_nat (length target)),
                  (0, of_nat (length (filter (\<lambda>y. y \<noteq> 0) target)) / of_nat (length target))]"
    using assms by (simp add: class_weight_def g Let_def)
qed

lemma fit_with_weights:
  assumes "class_weight target = Inr cw"
  shows "model (fst (snd (fit train self w features target)))
           = Some (LogisticRegression cw
               (case train cw features target of Inl e \<Rightarrow> None | Inr fitted \<Rightarrow> Some fitted))"
    and "snd (snd (fit train self w features target))
           = (case train cw features target of Inl e \<Rightarrow> Inl e | Inr fitted \<Rightarrow> Inr ())"
    and "model_h5 (fst (fit train self w features target))
           = (case train cw features target of
                Inl e \<Rightarrow> model_h5 w
              | Inr fitted \<Rightarrow> Some (LogisticRegression cw (Some fitted)))"
  using assms by (simp_all add: fit_def Let_def split: sum.splits)

text \<open>
  C7. For a non-empty target, \<open>fit\<close> constructs the estimator with the weight of class 1
  equal to the number of samples with label 0 over the number of samples, and the weight
  of class 0 equal to the number of samples with label 1 over the number of samples, and
  fits it with these weights: the estimator is the model of the object afterwards,
  fitted when the fitting succeeds, in which case it is also what is dumped. When every
  label is 0 or 1 these weights are, for each class, the number of samples that are not
  of the class over the number of samples.
\<close>

theorem fit_class_weight_opposite_class:
  assumes "target \<noteq> []"
  shows "(let weights = [(1, of_nat (count_list target 0) / of_nat (length target)),
                         (0, of_nat (count_list target 1) / of_nat (length target))]
          in model (fst (snd (fit train self w features target)))
               = Some (LogisticRegression weights
                   (case train weights features target of
                      Inl e \<Rightarrow> None | Inr fitted \<Rightarrow> Some fitted)) \<and>
             snd (snd (fit train self w features target))
               = (case train weights features target of
                    Inl e \<Rightarrow> Inl e | Inr fitted \<Rightarrow> Inr ()) \<and>
             model_h5 (fst (fit train self w features target))
               = (case train weights features target of
                    Inl e \<Rightarrow> model_h5 w
                  | Inr fitted \<Rightarrow> Some (LogisticRegression weights (Some fitted)))) \<and>
         (set target \<subseteq> {0, 1} \<longrightarrow>
            (let weights =
                   [(1, of_nat (length (filter (\<lambda>y. y \<noteq> 1) target)) / of_nat (length target)),
                    (0, of_nat (length (filter (\<lambda>y. y \<noteq> 0) target)) / of_nat (length target))]
             in model (fst (snd (fit train self w features target)))
                  = Some (LogisticRegression weights
                      (case train weights features target of
                         Inl e \<Rightarrow> None | Inr fitted \<Rightarrow> Some fitted))))"
  using fit_with_weights[OF class_weight_counts(1)[OF assms]]
    fit_with_weights(1)[OF class_weight_counts(2)[OF assms]]
  by (simp add: Let_def)

text \<open>Three samples of class 0 and one of class 1: the weights are 3/4 for 1 and 1/4 for 0.\<close>

theorem fit_class_weight_opposite_class_witness:
  "[0, 0, 1, 0] \<noteq> ([] :: int list) \<and> set [0, 0, 1, 0] \<subseteq> {0, 1 :: int} \<and>
   model (fst (snd (fit example_train (snd (DelayModel example_world)) example_world
                      example_features [0, 0, 1, 0])))
     = Some (LogisticRegression [(1, 3 / 4), (0, 1 / 4)] (Some sum_list)) \<and>
   snd (snd (fit example_train (snd (DelayModel example_world)) example_world
               example_features [0, 0, 1, 0])) = Inr ()"
proof -
  have h: "[0, 0, 1, 0] \<noteq> ([] :: int list)" by simp
  show ?thesis
    using fit_class_weight_opposite_class[OF h, of example_train "snd (DelayModel example_world)"
        example_world example_features]
    by (simp add: Let_def example_train_def)
qed

section \<open>Requests\<close>

text \<open>
  C10. With the pickled frame loadable and a model loaded, \<open>check_response\<close> on an empty
  list of flights returns no validation error but a list of exactly one label, the
  label that the classifier gives to the all-zero row of the length of the vocabulary.
\<close>

theorem check_response_empty_flights:
  assumes "all_features_p w = Some features" and "model self = Some (LogisticRegression cw (Some clf))"
  shows "snd (check_response self w [])
           = Inr (Labels [clf (replicate (length (top_10_features self)) 0)])"
  using assms by (simp add: check_response_def predict_def get_dummies_def)

theorem check_response_empty_flights_witness:
  "all_features_p example_world = Some example_features \<and>
   model (snd (DelayModel example_world))
     = Some (LogisticRegression [(1, 3 / 4), (0, 1 / 4)] (Some sum_list)) \<and>
   snd (check_response (snd (DelayModel example_world)) example_world []) = Inr (Labels [0])"
proof -
  have h1: "all_features_p example_world = Some example_features" by simp
  have h2: "model (snd (DelayModel example_world))
     = Some (LogisticRegression [(1, 3 / 4), (0, 1 / 4)] (Some sum_list))" by (simp add: DelayModel_def)
  show ?thesis
    using h1 h2 check_response_empty_flights[OF h1 h2] by (simp add: DelayModel_def)
qed

text \<open>
  C1. A request with two valid flights is answered with one label, whatever the
  classifier \<open>clf\<close>: the label of the row that encodes the first flight. The row of
  \<open>data_predict\<close> is the only row, and it takes the values of the first row of
  \<open>features_df\<close>.
\<close>

theorem post_predict_two_flights_one_label:
  "snd (post_predict
     \<lparr>model_h5 = Some (LogisticRegression cw (Some clf)),
      all_features_p = Some example_features, trace = []\<rparr>
     [\<lparr>OPERA = ''Grupo LATAM'', TIPOVUELO = ''N'', MES = 3\<rparr>,
      \<lparr>OPERA = ''Aerolineas Argentinas'', TIPOVUELO = ''I'', MES = 7\<rparr>])
   = OK (Labels [clf [0, 0, 0, 1, 0, 0, 0, 0, 0, 0]])"
  by code_simp

text \<open>
  C8, as the code has it. Every request constructs a model object, which loads
  \<^verbatim>\<open>data/model.h5\<close>, and \<open>check_response\<close> then loads \<^verbatim>\<open>data/all_features.p\<close>; the request
  writes neither file.
\<close>

theorem post_predict_loads_per_request:
  "trace (fst (post_predict w flights))
     = trace w @ [Load ''data/model.h5'', Load ''data/all_features.p''] \<and>
   model_h5 (fst (post_predict w flights)) = model_h5 w \<and>
   all_features_p (fst (post_predict w flights)) = all_features_p w"
  by (auto simp: post_predict_def DelayModel_def check_response_def Let_def
      split: prod.splits sum.splits option.splits response.splits)

text \<open>
  C8, as stated, fails: one request loads both files, and when the pickled frame is
  replaced after a request, the same request is then answered from the new frame.
\<close>

theorem post_predict_reads_files_again:
  "trace (fst (post_predict example_world [\<lparr>OPERA = ''Grupo LATAM'', TIPOVUELO = ''N'', MES = 3\<rparr>]))
     = [Load ''data/model.h5'', Load ''data/all_features.p''] \<and>
   snd (post_predict example_world [\<lparr>OPERA = ''Grupo LATAM'', TIPOVUELO = ''N'', MES = 3\<rparr>])
     = OK (Labels [1]) \<and>
   snd (post_predict
         ((fst (post_predict example_world [\<lparr>OPERA = ''Grupo LATAM'', TIPOVUELO = ''N'', MES = 3\<rparr>]))
            \<lparr>all_features_p := Some [(''OPERA_Sky Airline'', [1])]\<rparr>)
         [\<lparr>OPERA = ''Grupo LATAM'', TIPOVUELO = ''N'', MES = 3\<rparr>])
     = HTTPException 400 ''Value in column OPERA is incorrect''"
  by code_simp

section \<open>Minute difference and delay\<close>

lemma div_step:
  fixes y k :: int
  assumes "0 < k"
  shows "y div k = (y - 1) div k + (if y mod k = 0 then 1 else 0)"
proof (cases "y mod k = 0")
  case True
  then obtain q where q: "y = k * q" by (auto simp: mod_eq_0_iff_dvd)
  have "(y - 1) div k = q - 1"
    by (rule int_div_pos_eq[where r = "k - 1"]) (use assms q in \<open>simp_all add: algebra_simps\<close>)
  with True q assms show ?thesis by simp
next
  case False
  have m: "0 \<le> y mod k" "y mod k < k" using assms by simp_all
  have e: "y = k * (y div k) + y mod k" by simp
  have "(y - 1) div k = y div k"
    by (rule int_div_pos_eq[where r = "y mod k - 1"]) (use assms m False e in \<open>auto simp: algebra_simps\<close>)
  with False show ?thesis by simp
qed


lemma int_mod_zero_iff: "(int y mod int k = 0) = (y mod k = 0)"
  by (metis of_nat_mod of_nat_eq_0_iff)

lemma days_before_year_Suc:
  assumes "1 \<le> y"
  shows "days_before_year (Suc y) = days_before_year y + 365 + (if is_leap y then 1 else 0)"
proof -
  have a: "int y div 4 = (int y - 1) div 4 + (if y mod 4 = 0 then 1 else 0)"
    using div_step[of 4 "int y"] int_mod_zero_iff[of y 4] by simp
  have b: "int y div 100 = (int y - 1) div 100 + (if y mod 100 = 0 then 1 else 0)"
    using div_step[of 100 "int y"] int_mod_zero_iff[of y 100] by simp
  have c: "int y div 400 = (int y - 1) div 400 + (if y mod 400 = 0 then 1 else 0)"
    using div_step[of 400 "int y"] int_mod_zero_iff[of y 400] by simp
  have d: "y mod 400 = 0 \<Longrightarrow> y mod 100 = 0" "y mod 100 = 0 \<Longrightarrow> y mod 4 = 0"
    by (auto simp: mod_eq_0_iff_dvd elim: dvd_trans[rotated])
  have e: "days_before_year (Suc y) = int y * 365 + int y div 4 - int y div 100 + int y div 400"
    by (simp add: days_before_year_def Let_def)
  have f: "days_before_year y = (int y - 1) * 365 + (int y - 1) div 4 - (int y - 1) div 100 + (int y - 1) div 400"
    by (simp add: days_before_year_def Let_def)
  show ?thesis
    unfolding e f a b c is_leap_def using d by (auto simp: algebra_simps)
qed


lemma days_before_year_mono:
  assumes "1 \<le> y" "y \<le> y'"
  shows "days_before_year y \<le> days_before_year y'"
  using assms(2,1)
proof (induction rule: dec_induct)
  case base
  show ?case by simp
next
  case (step n)
  have "1 \<le> n" using step by simp
  from days_before_year_Suc[OF this] step show ?case by (simp split: if_splits)
qed

lemma month_cases:
  assumes "1 \<le> m" "m \<le> 12"
  shows "m = 1 \<or> m = 2 \<or> m = 3 \<or> m = 4 \<or> m = 5 \<or> m = 6 \<or> m = 7 \<or> m = 8 \<or> m = 9 \<or>
         m = 10 \<or> m = 11 \<or> m = (12::nat)"
  using assms by arith

lemma days_before_month_Suc:
  assumes "1 \<le> m" "m < 12"
  shows "days_before_month y (Suc m) = days_before_month y m + int (days_in_month y m)"
proof -
  have "m = 1 \<or> m = 2 \<or> m = 3 \<or> m = 4 \<or> m = 5 \<or> m = 6 \<or> m = 7 \<or> m = 8 \<or> m = 9 \<or>
         m = 10 \<or> m = 11" using assms by arith
  then show ?thesis
    by (elim disjE) (simp_all add: days_before_month_def days_in_month_def eval_nat_numeral)
qed

lemma days_before_month_mono:
  assumes "m1 < m2" "1 \<le> m1" "m2 \<le> 12"
  shows "days_before_month y m1 + int (days_in_month y m1) \<le> days_before_month y m2"
  using assms
proof (induction m2)
  case 0
  then show ?case by simp
next
  case (Suc n)
  show ?case
  proof (cases "m1 = n")
    case True
    with Suc.prems days_before_month_Suc[of n y] show ?thesis by simp
  next
    case False
    with Suc.prems have l: "m1 < n" by simp
    have n: "1 \<le> n" "n < 12" using l Suc.prems by simp_all
    from Suc.IH[OF l] Suc.prems days_before_month_Suc[OF n, of y] show ?thesis by simp
  qed
qed

lemma day_of_year_range:
  assumes "valid_timestamp t"
  shows "1 \<le> days_before_month (year t) (month t) + int (day t)"
    and "days_before_month (year t) (month t) + int (day t)
           \<le> 365 + (if is_leap (year t) then 1 else 0)"
proof -
  have m: "1 \<le> month t" "month t \<le> 12" and d: "1 \<le> day t"
    "day t \<le> days_in_month (year t) (month t)"
    using assms by (simp_all add: valid_timestamp_def)
  have z: "0 \<le> days_before_month (year t) (month t)"
    using month_cases[OF m] by (elim disjE) (simp_all add: days_before_month_def)
  show "1 \<le> days_before_month (year t) (month t) + int (day t)" using z d by simp
  have "days_before_month (year t) (month t) + int (days_in_month (year t) (month t))
      \<le> 365 + (if is_leap (year t) then 1 else 0)"
    using month_cases[OF m] by (elim disjE) (simp_all add: days_before_month_def days_in_month_def)
  then show "days_before_month (year t) (month t) + int (day t)
           \<le> 365 + (if is_leap (year t) then 1 else 0)" using d by simp
qed


lemma toordinal_less:
  assumes a: "valid_timestamp a" and b: "valid_timestamp b"
    and l: "date_of a < date_of b"
  shows "toordinal a < toordinal b"
proof -
  have va: "1 \<le> year a" "1 \<le> month a" "month a \<le> 12" "day a \<le> days_in_month (year a) (month a)"
    using a by (simp_all add: valid_timestamp_def)
  have vb: "1 \<le> year b" "1 \<le> month b" "month b \<le> 12" "1 \<le> day b"
    using b by (simp_all add: valid_timestamp_def)
  from l have "year a < year b \<or> (year a = year b \<and> month a < month b) \<or>
      (year a = year b \<and> month a = month b \<and> day a < day b)"
    by (auto simp: date_of_def less_prod_def order_le_less)
  then consider
      (y) "year a < year b"
    | (m) "year a = year b" "month a < month b"
    | (d) "year a = year b" "month a = month b" "day a < day b"
    by blast
  then show ?thesis
  proof cases
    case y
    have "toordinal a \<le> days_before_year (Suc (year a))"
      using day_of_year_range(2)[OF a] days_before_year_Suc[OF va(1)]
      by (simp add: toordinal_def)
    also have "\<dots> \<le> days_before_year (year b)"
      by (rule days_before_year_mono) (use y in simp_all)
    also have "\<dots> < toordinal b"
      using day_of_year_range(1)[OF b] by (simp add: toordinal_def)
    finally show ?thesis .
  next
    case m
    from days_before_month_mono[OF m(2) va(2) vb(3), of "year a"] va(4) vb(4) m(1)
    show ?thesis by (simp add: toordinal_def)
  next
    case d
    then show ?thesis by (simp add: toordinal_def)
  qed
qed

lemma datetime_less_iff:
  "(datetime_of a < datetime_of b) =
     (date_of a < date_of b \<or> (date_of a = date_of b \<and> time_of a < time_of b))"
  by (auto simp: datetime_of_def date_of_def time_of_def less_prod_def)

lemma time_of_less_iff:
  assumes "valid_timestamp a" "valid_timestamp b"
  shows "(time_of a < time_of b) = (seconds_of_day a < seconds_of_day b)"
  using assms time_less_iff[of "minute a" "second a" "minute b" "second b" "hour a" "hour b"]
  by (simp add: time_of_def seconds_of_day_def valid_timestamp_def)

lemma total_seconds_sign:
  assumes a: "valid_timestamp a" and b: "valid_timestamp b"
  shows "(0 < total_seconds b a) = (datetime_of a < datetime_of b)"
proof -
  note ra = seconds_of_day_range[OF a] and rb = seconds_of_day_range[OF b]
  consider (lt) "date_of a < date_of b" | (eq) "date_of a = date_of b" | (gt) "date_of b < date_of a"
    by (rule linorder_cases)
  then show ?thesis
  proof cases
    case lt
    from toordinal_less[OF a b lt] ra rb have "0 < total_seconds b a"
      by (simp add: total_seconds_def)
    with lt show ?thesis by (simp add: datetime_less_iff)
  next
    case eq
    then have "toordinal a = toordinal b" by (simp add: date_of_def toordinal_def)
    with eq show ?thesis
      by (simp add: datetime_less_iff total_seconds_def time_of_less_iff[OF a b])
  next
    case gt
    from toordinal_less[OF b a gt] ra rb have "\<not> 0 < total_seconds b a"
      by (simp add: total_seconds_def)
    with gt show ?thesis by (auto simp: datetime_less_iff)
  qed
qed


text \<open>The ordinal counts days: the next day of the calendar has the next ordinal.\<close>

lemma toordinal_next_day:
  assumes "valid_timestamp t"
  shows "day t < days_in_month (year t) (month t) \<Longrightarrow>
           toordinal (t\<lparr>day := Suc (day t)\<rparr>) = toordinal t + 1"
    and "day t = days_in_month (year t) (month t) \<Longrightarrow> month t < 12 \<Longrightarrow>
           toordinal (t\<lparr>month := Suc (month t), day := 1\<rparr>) = toordinal t + 1"
    and "day t = 31 \<Longrightarrow> month t = 12 \<Longrightarrow>
           toordinal (t\<lparr>year := Suc (year t), month := 1, day := 1\<rparr>) = toordinal t + 1"
proof -
  have v: "1 \<le> year t" "1 \<le> month t" using assms by (simp_all add: valid_timestamp_def)
  show "day t < days_in_month (year t) (month t) \<Longrightarrow>
           toordinal (t\<lparr>day := Suc (day t)\<rparr>) = toordinal t + 1"
    by (simp add: toordinal_def)
  show "day t = days_in_month (year t) (month t) \<Longrightarrow> month t < 12 \<Longrightarrow>
           toordinal (t\<lparr>month := Suc (month t), day := 1\<rparr>) = toordinal t + 1"
    using days_before_month_Suc[OF v(2), of "year t"] by (simp add: toordinal_def)
  show "day t = 31 \<Longrightarrow> month t = 12 \<Longrightarrow>
           toordinal (t\<lparr>year := Suc (year t), month := 1, day := 1\<rparr>) = toordinal t + 1"
    using days_before_year_Suc[OF v(1)] by (simp add: toordinal_def days_before_month_def)
qed

text \<open>
  C6. For a scheduled and an actual timestamp that parse, \<open>get_min_diff\<close> returns the
  seconds from the scheduled to the actual instant divided by 60; exchanging the two
  negates it, and it is positive exactly when the actual instant is the later one. The
  delay is 1 exactly when the difference is more than 15 minutes (900 seconds), so a
  difference of exactly 15 minutes gives 0.
\<close>

theorem get_min_diff_signed_minutes:
  assumes "valid_timestamp scheduled" and "valid_timestamp actual"
  shows "get_min_diff (actual, scheduled) = Inr (of_int (total_seconds actual scheduled) / 60) \<and>
         get_min_diff (scheduled, actual) = Inr (- (of_int (total_seconds actual scheduled) / 60)) \<and>
         (0 < total_seconds actual scheduled \<longleftrightarrow> datetime_of scheduled < datetime_of actual) \<and>
         delay_of (snd (DelayModel w)) (of_int (total_seconds actual scheduled) / 60)
           = (if 15 * 60 < total_seconds actual scheduled then 1 else 0)"
proof -
  have n: "total_seconds scheduled actual = - total_seconds actual scheduled"
    by (simp add: total_seconds_def algebra_simps)
  have d: "(15 < (of_int (total_seconds actual scheduled) :: rat) / 60)
         = (15 * 60 < total_seconds actual scheduled)"
  proof -
    have "(15 < (of_int (total_seconds actual scheduled) :: rat) / 60)
        = ((of_int (15 * 60) :: rat) < of_int (total_seconds actual scheduled))"
      by (simp add: field_simps)
    also have "\<dots> = (15 * 60 < total_seconds actual scheduled)"
      by (simp only: of_int_less_iff)
    finally show ?thesis .
  qed
  show ?thesis
    using total_seconds_sign[OF assms] d
    by (simp add: get_min_diff_def strptime_valid[OF assms(1)] strptime_valid[OF assms(2)] n
        delay_of_def DelayModel_def)
qed

text \<open>Twenty minutes late: the difference is 20 and the delay is 1.\<close>

theorem get_min_diff_signed_minutes_witness:
  "valid_timestamp \<lparr>year = 2023, month = 3, day = 5, hour = 10, minute = 0, second = 0\<rparr> \<and>
   valid_timestamp \<lparr>year = 2023, month = 3, day = 5, hour = 10, minute = 20, second = 0\<rparr> \<and>
   get_min_diff (\<lparr>year = 2023, month = 3, day = 5, hour = 10, minute = 20, second = 0\<rparr>,
                 \<lparr>year = 2023, month = 3, day = 5, hour = 10, minute = 0, second = 0\<rparr>) = Inr 20 \<and>
   delay_of (snd (DelayModel example_world)) 20 = 1"
proof -
  have v1: "valid_timestamp \<lparr>year = 2023, month = 3, day = 5, hour = 10, minute = 0, second = 0\<rparr>"
    by (simp add: valid_timestamp_def days_in_month_def)
  have v2: "valid_timestamp \<lparr>year = 2023, month = 3, day = 5, hour = 10, minute = 20, second = 0\<rparr>"
    by (simp add: valid_timestamp_def days_in_month_def)
  have t: "total_seconds \<lparr>year = 2023, month = 3, day = 5, hour = 10, minute = 20, second = 0\<rparr>
             \<lparr>year = 2023, month = 3, day = 5, hour = 10, minute = 0, second = 0\<rparr> = 1200"
    by (simp add: total_seconds_def toordinal_def seconds_of_day_def)
  show ?thesis
    using v1 v2 get_min_diff_signed_minutes[OF v1 v2, of example_world]
    by (simp add: t)
qed

section \<open>The frame of the caller\<close>

lemma preprocess_success:
  assumes "Fecha_I data = Some fi" "Fecha_O data = Some fo"
    "series_apply get_period_day fi = Inr pd"
    "series_apply is_high_season fi = Inr hs"
    "series_apply get_min_diff (zip fo fi) = Inr md"
    "OPERA_col data = Some opera" "TIPOVUELO_col data = Some tipo" "MES_col data = Some mes"
    "select_columns (get_dummies id opera ''OPERA'' @ get_dummies id tipo ''TIPOVUELO'' @
        get_dummies str_int mes ''MES'') (top_10_features self) = Inr sel"
    "fi \<noteq> []"
  shows "preprocess self w data tc =
     (w\<lparr>all_features_p := Some (get_dummies id opera ''OPERA'' @ get_dummies id tipo ''TIPOVUELO'' @
            get_dummies str_int mes ''MES''),
         trace := trace w @ [Dump ''data/all_features.p'']\<rparr>,
      data\<lparr>period_day := Some pd, high_season := Some hs, min_diff := Some md,
           delay := Some (map (delay_of self) md)\<rparr>,
      Inr (if tc \<noteq> None \<and> tc \<noteq> Some [] then Features_Target sel (map (delay_of self) md)
           else Features sel))"
  using assms by (simp add: preprocess_def Let_def)

lemma preprocess_Inr:
  assumes "snd (snd (preprocess self w data tc)) = Inr r"
  obtains fi fo pd hs md opera tipo mes sel where
    "Fecha_I data = Some fi" "Fecha_O data = Some fo"
    "series_apply get_period_day fi = Inr pd"
    "series_apply is_high_season fi = Inr hs"
    "series_apply get_min_diff (zip fo fi) = Inr md"
    "OPERA_col data = Some opera" "TIPOVUELO_col data = Some tipo" "MES_col data = Some mes"
    "select_columns (get_dummies id opera ''OPERA'' @ get_dummies id tipo ''TIPOVUELO'' @
        get_dummies str_int mes ''MES'') (top_10_features self) = Inr sel"
    "fi \<noteq> []"
proof -
  obtain fi where 1: "Fecha_I data = Some fi"
    using assms by (cases "Fecha_I data") (simp_all add: preprocess_def)
  obtain pd where 2: "series_apply get_period_day fi = Inr pd"
    using assms 1 by (cases "series_apply get_period_day fi") (simp_all add: preprocess_def)
  obtain hs where 3: "series_apply is_high_season fi = Inr hs"
    using assms 1 2 by (cases "series_apply is_high_season fi") (simp_all add: preprocess_def)
  have 10: "fi \<noteq> []"
    using assms 1 2 3 by (cases "fi = []") (simp_all add: preprocess_def)
  obtain fo where 4: "Fecha_O data = Some fo"
    using assms 1 2 3 10 by (cases "Fecha_O data") (simp_all add: preprocess_def)
  obtain md where 5: "series_apply get_min_diff (zip fo fi) = Inr md"
    using assms 1 2 3 4 10
    by (cases "series_apply get_min_diff (zip fo fi)") (simp_all add: preprocess_def)
  obtain opera where 6: "OPERA_col data = Some opera"
    using assms 1 2 3 4 5 10 by (cases "OPERA_col data") (simp_all add: preprocess_def)
  obtain tipo where 7: "TIPOVUELO_col data = Some tipo"
    using assms 1 2 3 4 5 6 10 by (cases "TIPOVUELO_col data") (simp_all add: preprocess_def)
  obtain mes where 8: "MES_col data = Some mes"
    using assms 1 2 3 4 5 6 7 10 by (cases "MES_col data") (simp_all add: preprocess_def)
  obtain sel where 9: "select_columns (get_dummies id opera ''OPERA'' @
        get_dummies id tipo ''TIPOVUELO'' @ get_dummies str_int mes ''MES'')
        (top_10_features self) = Inr sel"
    using assms 1 2 3 4 5 6 7 8 10
    by (cases "select_columns (get_dummies id opera ''OPERA'' @
        get_dummies id tipo ''TIPOVUELO'' @ get_dummies str_int mes ''MES'')
        (top_10_features self)") (simp_all add: preprocess_def Let_def)
  from that[OF 1 4 2 3 5 6 7 8 9 10] show thesis .
qed

lemma select_columns_names: "select_columns features names = Inr sel \<Longrightarrow> map fst sel = names"
  by (auto simp: select_columns_def comp_def split: if_splits)

text \<open>The steps of \<open>preprocess\<close> on the example frame.\<close>

lemma example_frame_period_day:
  "series_apply get_period_day (the (Fecha_I example_frame))
     = Inr [Some Manana, Some Tarde, Some Noche, None, Some Tarde]"
  by (simp add: get_period_day_def strptime_def valid_timestamp_def days_in_month_def
      is_leap_def time_of_def less_prod_def Let_def)

lemma example_frame_high_season:
  "series_apply is_high_season (the (Fecha_I example_frame)) = Inr [1, 0, 1, 0, 0]"
  by (simp add: is_high_season_def strptime_def valid_timestamp_def days_in_month_def
      is_leap_def datetime_of_def less_prod_def less_eq_prod_def Let_def)

lemma example_frame_min_diff:
  "series_apply get_min_diff (zip (the (Fecha_O example_frame)) (the (Fecha_I example_frame)))
     = Inr [20, 5, 30, - 2, 15]"
  by (simp add: get_min_diff_def strptime_def valid_timestamp_def days_in_month_def
      is_leap_def total_seconds_def toordinal_def seconds_of_day_def)

lemma example_frame_dummies:
  "get_dummies id (the (OPERA_col example_frame)) ''OPERA'' @
   get_dummies id (the (TIPOVUELO_col example_frame)) ''TIPOVUELO'' @
   get_dummies str_int (the (MES_col example_frame)) ''MES''
   = [(''OPERA_Copa Air'', [0, 0, 0, 1, 0]),
      (''OPERA_Grupo LATAM'', [0, 1, 0, 0, 1]),
      (''OPERA_Latin American Wings'', [1, 0, 0, 0, 0]),
      (''OPERA_Sky Airline'', [0, 0, 1, 0, 0]),
      (''TIPOVUELO_I'', [1, 0, 0, 1, 0]), (''TIPOVUELO_N'', [0, 1, 1, 0, 1]),
      (''MES_4'', [0, 0, 0, 1, 0]), (''MES_7'', [1, 0, 0, 0, 0]),
      (''MES_10'', [0, 1, 0, 0, 0]), (''MES_11'', [0, 0, 0, 0, 1]),
      (''MES_12'', [0, 0, 1, 0, 0])]"
  by code_simp

lemma example_frame_selected:
  "select_columns
     [(''OPERA_Copa Air'', [0, 0, 0, 1, 0]),
      (''OPERA_Grupo LATAM'', [0, 1, 0, 0, 1]),
      (''OPERA_Latin American Wings'', [1, 0, 0, 0, 0]),
      (''OPERA_Sky Airline'', [0, 0, 1, 0, 0]),
      (''TIPOVUELO_I'', [1, 0, 0, 1, 0]), (''TIPOVUELO_N'', [0, 1, 1, 0, 1]),
      (''MES_4'', [0, 0, 0, 1, 0]), (''MES_7'', [1, 0, 0, 0, 0]),
      (''MES_10'', [0, 1, 0, 0, 0]), (''MES_11'', [0, 0, 0, 0, 1]),
      (''MES_12'', [0, 0, 1, 0, 0])]
     (top_10_features (snd (DelayModel example_world)))
   = Inr [(''OPERA_Latin American Wings'', [1, 0, 0, 0, 0]),
         (''MES_7'', [1, 0, 0, 0, 0]), (''MES_10'', [0, 1, 0, 0, 0]),
         (''OPERA_Grupo LATAM'', [0, 1, 0, 0, 1]),
         (''MES_12'', [0, 0, 1, 0, 0]), (''TIPOVUELO_I'', [1, 0, 0, 1, 0]),
         (''MES_4'', [0, 0, 0, 1, 0]), (''MES_11'', [0, 0, 0, 0, 1]),
         (''OPERA_Sky Airline'', [0, 0, 1, 0, 0]),
         (''OPERA_Copa Air'', [0, 0, 0, 1, 0])]"
  by code_simp


lemma example_frame_preprocess:
  "snd (snd (preprocess (snd (DelayModel example_world)) example_world example_frame tc))
     = Inr (if tc \<noteq> None \<and> tc \<noteq> Some []
        then Features_Target
          [(''OPERA_Latin American Wings'', [1, 0, 0, 0, 0]),
           (''MES_7'', [1, 0, 0, 0, 0]), (''MES_10'', [0, 1, 0, 0, 0]),
           (''OPERA_Grupo LATAM'', [0, 1, 0, 0, 1]),
           (''MES_12'', [0, 0, 1, 0, 0]), (''TIPOVUELO_I'', [1, 0, 0, 1, 0]),
           (''MES_4'', [0, 0, 0, 1, 0]), (''MES_11'', [0, 0, 0, 0, 1]),
           (''OPERA_Sky Airline'', [0, 0, 1, 0, 0]),
           (''OPERA_Copa Air'', [0, 0, 0, 1, 0])]
          (map (delay_of (snd (DelayModel example_world))) [20, 5, 30, - 2, 15])
        else Features
          [(''OPERA_Latin American Wings'', [1, 0, 0, 0, 0]),
           (''MES_7'', [1, 0, 0, 0, 0]), (''MES_10'', [0, 1, 0, 0, 0]),
           (''OPERA_Grupo LATAM'', [0, 1, 0, 0, 1]),
           (''MES_12'', [0, 0, 1, 0, 0]), (''TIPOVUELO_I'', [1, 0, 0, 1, 0]),
           (''MES_4'', [0, 0, 0, 1, 0]), (''MES_11'', [0, 0, 0, 0, 1]),
           (''OPERA_Sky Airline'', [0, 0, 1, 0, 0]),
           (''OPERA_Copa Air'', [0, 0, 0, 1, 0])])"
proof -
  have o: "Fecha_I example_frame = Some (the (Fecha_I example_frame))"
    "Fecha_O example_frame = Some (the (Fecha_O example_frame))"
    "OPERA_col example_frame = Some (the (OPERA_col example_frame))"
    "TIPOVUELO_col example_frame = Some (the (TIPOVUELO_col example_frame))"
    "MES_col example_frame = Some (the (MES_col example_frame))"
    by simp_all
  have n: "the (Fecha_I example_frame) \<noteq> []" by simp
  show ?thesis
    by (subst preprocess_success[OF o(1,2) example_frame_period_day example_frame_high_season
          example_frame_min_diff o(3,4,5)
          example_frame_selected[folded example_frame_dummies] n])
      simp
qed

text \<open>On timestamps that parse, the three derived columns are computed without raising.\<close>

lemma series_apply_total:
  assumes "\<forall>x \<in> set xs. \<exists>y. f x = Inr y"
  shows "\<exists>ys. series_apply f xs = Inr ys \<and> length ys = length xs"
  using assms by (induction xs) auto

lemma get_period_day_valid: "valid_timestamp t \<Longrightarrow> \<exists>p. get_period_day t = Inr p"
  by (simp add: get_period_day_def strptime_valid Let_def)

lemma is_high_season_valid: "valid_timestamp t \<Longrightarrow> \<exists>h. is_high_season t = Inr h"
  by (simp add: is_high_season_def strptime_valid Let_def)

lemma get_min_diff_valid:
  "valid_timestamp a \<Longrightarrow> valid_timestamp b \<Longrightarrow> \<exists>d. get_min_diff (a, b) = Inr d"
  unfolding get_min_diff_def by (simp only: fst_conv snd_conv strptime_valid sum.case) blast

lemma derived_columns_exist:
  assumes "\<forall>t \<in> set fi. valid_timestamp t" "\<forall>t \<in> set fo. valid_timestamp t"
  obtains pd hs md where
    "series_apply get_period_day fi = Inr pd" "series_apply is_high_season fi = Inr hs"
    "series_apply get_min_diff (zip fo fi) = Inr md"
    "length pd = length fi" "length hs = length fi" "length md = length (zip fo fi)"
proof -
  obtain pd where 1: "series_apply get_period_day fi = Inr pd" "length pd = length fi"
    using series_apply_total[of fi get_period_day] assms(1) get_period_day_valid by blast
  obtain hs where 2: "series_apply is_high_season fi = Inr hs" "length hs = length fi"
    using series_apply_total[of fi is_high_season] assms(1) is_high_season_valid by blast
  have "\<forall>x \<in> set (zip fo fi). \<exists>d. get_min_diff x = Inr d"
    using assms by (auto dest: set_zip_leftD set_zip_rightD intro: get_min_diff_valid)
  then obtain md where 3: "series_apply get_min_diff (zip fo fi) = Inr md"
    "length md = length (zip fo fi)"
    using series_apply_total[of "zip fo fi" get_min_diff] by blast
  from that[OF 1(1) 2(1) 3(1) 1(2) 2(2) 3(2)] show thesis .
qed

lemma preprocess_frame:
  assumes "Fecha_I data = Some fi" "Fecha_O data = Some fo"
    "series_apply get_period_day fi = Inr pd"
    "series_apply is_high_season fi = Inr hs"
    "series_apply get_min_diff (zip fo fi) = Inr md"
    "fi \<noteq> []"
  shows "fst (snd (preprocess self w data tc)) =
           data\<lparr>period_day := Some pd, high_season := Some hs, min_diff := Some md,
                delay := Some (map (delay_of self) md)\<rparr>"
  using assms by (simp add: preprocess_def Let_def split: option.splits sum.splits)

lemma preprocess_returned:
  assumes "Fecha_I data = Some fi" "Fecha_O data = Some fo"
    "series_apply get_period_day fi = Inr pd"
    "series_apply is_high_season fi = Inr hs"
    "series_apply get_min_diff (zip fo fi) = Inr md"
    "fi \<noteq> []"
    "snd (snd (preprocess self w data tc)) = Inr r"
  shows "\<exists>selected. map fst selected = top_10_features self \<and>
           (r = Features selected \<or> r = Features_Target selected (map (delay_of self) md))"
proof -
  from assms(7) obtain fi' fo' pd' hs' md' opera tipo mes sel where
    p: "Fecha_I data = Some fi'" "Fecha_O data = Some fo'"
    "series_apply get_period_day fi' = Inr pd'"
    "series_apply is_high_season fi' = Inr hs'"
    "series_apply get_min_diff (zip fo' fi') = Inr md'"
    "OPERA_col data = Some opera" "TIPOVUELO_col data = Some tipo" "MES_col data = Some mes"
    "select_columns (get_dummies id opera ''OPERA'' @ get_dummies id tipo ''TIPOVUELO'' @
        get_dummies str_int mes ''MES'') (top_10_features self) = Inr sel"
    "fi' \<noteq> []"
    by (rule preprocess_Inr)
  have e: "md' = md" using p(1,2,5) assms(1,2,5) by simp
  have "r = Features sel \<or> r = Features_Target sel (map (delay_of self) md)"
    using assms(7) unfolding e[symmetric] by (auto simp: preprocess_success[OF p] split: if_splits)
  with select_columns_names[OF p(9)] show ?thesis by blast
qed

text \<open>
  C9, as the code has it. For a frame with at least one row whose columns \<^verbatim>\<open>Fecha-I\<close> and
  \<^verbatim>\<open>Fecha-O\<close> are present and hold timestamps that parse, the frame of the caller after
  the call, whether the call returns or raises in the encoding that follows, is the frame
  that was passed in with the columns \<^verbatim>\<open>period_day\<close>, \<^verbatim>\<open>high_season\<close>, \<^verbatim>\<open>min_diff\<close> and
  \<^verbatim>\<open>delay\<close> set to the values derived from the two columns, one per row, added or
  overwritten, and every other column as it was; this is so whatever \<open>target_column\<close>
  is. What is returned, when the call returns, is another object: the columns of the
  vocabulary, with the delay column when the target is asked for.
\<close>

theorem preprocess_sets_derived_columns:
  assumes "Fecha_I data = Some fi" and "Fecha_O data = Some fo" and "fi \<noteq> []"
    and "length fo = length fi"
    and "\<forall>t \<in> set fi. valid_timestamp t" and "\<forall>t \<in> set fo. valid_timestamp t"
  shows "\<exists>pd hs md.
           series_apply get_period_day fi = Inr pd \<and>
           series_apply is_high_season fi = Inr hs \<and>
           series_apply get_min_diff (zip fo fi) = Inr md \<and>
           length pd = length fi \<and> length hs = length fi \<and> length md = length fi \<and>
           (\<forall>tc. fst (snd (preprocess self w data tc)) =
              data\<lparr>period_day := Some pd, high_season := Some hs, min_diff := Some md,
                   delay := Some (map (delay_of self) md)\<rparr>) \<and>
           (\<forall>tc r. snd (snd (preprocess self w data tc)) = Inr r \<longrightarrow>
              (\<exists>selected. map fst selected = top_10_features self \<and>
                 (r = Features selected \<or>
                  r = Features_Target selected (map (delay_of self) md))))"
proof -
  from assms(5,6) obtain pd hs md where
    d: "series_apply get_period_day fi = Inr pd" "series_apply is_high_season fi = Inr hs"
    "series_apply get_min_diff (zip fo fi) = Inr md"
    and l': "length pd = length fi" "length hs = length fi" "length md = length (zip fo fi)"
    by (rule derived_columns_exist)
  have l: "length pd = length fi" "length hs = length fi" "length md = length fi"
    using l' assms(4) by simp_all
  have f: "\<forall>tc. fst (snd (preprocess self w data tc)) =
              data\<lparr>period_day := Some pd, high_season := Some hs, min_diff := Some md,
                   delay := Some (map (delay_of self) md)\<rparr>"
    using preprocess_frame[OF assms(1,2) d assms(3)] by blast
  have r: "\<forall>tc r. snd (snd (preprocess self w data tc)) = Inr r \<longrightarrow>
              (\<exists>selected. map fst selected = top_10_features self \<and>
                 (r = Features selected \<or>
                  r = Features_Target selected (map (delay_of self) md)))"
    using preprocess_returned[OF assms(1,2) d assms(3)] by blast
  from d l f r show ?thesis by blast
qed

text \<open>The derived columns of the frame of one flight.\<close>

lemma example_single_flight_period_day:
  "series_apply get_period_day (the (Fecha_I example_single_flight)) = Inr [Some Manana]"
  by (simp add: get_period_day_def strptime_def valid_timestamp_def days_in_month_def
      is_leap_def time_of_def less_prod_def Let_def)

lemma example_single_flight_high_season:
  "series_apply is_high_season (the (Fecha_I example_single_flight)) = Inr [0]"
  by (simp add: is_high_season_def strptime_def valid_timestamp_def days_in_month_def
      is_leap_def datetime_of_def less_prod_def less_eq_prod_def Let_def)

lemma example_single_flight_min_diff:
  "series_apply get_min_diff
     (zip (the (Fecha_O example_single_flight)) (the (Fecha_I example_single_flight))) = Inr [20]"
  by (simp add: get_min_diff_def strptime_def valid_timestamp_def days_in_month_def
      is_leap_def total_seconds_def toordinal_def seconds_of_day_def)

text \<open>
  The frame of one flight gets its four columns, although the call then raises in the
  selection of the vocabulary columns.
\<close>

theorem preprocess_sets_derived_columns_witness:
  "Fecha_I example_single_flight
     = Some [\<lparr>year = 2023, month = 3, day = 5, hour = 10, minute = 0, second = 0\<rparr>] \<and>
   Fecha_O example_single_flight
     = Some [\<lparr>year = 2023, month = 3, day = 5, hour = 10, minute = 20, second = 0\<rparr>] \<and>
   valid_timestamp \<lparr>year = 2023, month = 3, day = 5, hour = 10, minute = 0, second = 0\<rparr> \<and>
   valid_timestamp \<lparr>year = 2023, month = 3, day = 5, hour = 10, minute = 20, second = 0\<rparr> \<and>
   fst (snd (preprocess (snd (DelayModel example_world)) example_world example_single_flight
              (Some ''delay'')))
     = example_single_flight
         \<lparr>period_day := Some [Some Manana], high_season := Some [0],
          min_diff := Some [20], delay := Some [1]\<rparr>"
proof -
  have i: "Fecha_I example_single_flight = Some (the (Fecha_I example_single_flight))"
    and o: "Fecha_O example_single_flight = Some (the (Fecha_O example_single_flight))"
    and n: "the (Fecha_I example_single_flight) \<noteq> []"
    and l: "length (the (Fecha_O example_single_flight)) = length (the (Fecha_I example_single_flight))"
    by simp_all
  have v1: "valid_timestamp \<lparr>year = 2023, month = 3, day = 5, hour = 10, minute = 0, second = 0\<rparr>"
    and v2: "valid_timestamp \<lparr>year = 2023, month = 3, day = 5, hour = 10, minute = 20, second = 0\<rparr>"
    by (simp_all add: valid_timestamp_def days_in_month_def)
  have vi: "\<forall>t \<in> set (the (Fecha_I example_single_flight)). valid_timestamp t"
    and vo: "\<forall>t \<in> set (the (Fecha_O example_single_flight)). valid_timestamp t"
    using v1 v2 by simp_all
  from preprocess_sets_derived_columns[OF i o n l vi vo,
      of "snd (DelayModel example_world)" example_world]
  obtain pd hs md where
    p: "series_apply get_period_day (the (Fecha_I example_single_flight)) = Inr pd"
      "series_apply is_high_season (the (Fecha_I example_single_flight)) = Inr hs"
      "series_apply get_min_diff
         (zip (the (Fecha_O example_single_flight)) (the (Fecha_I example_single_flight))) = Inr md"
      "fst (snd (preprocess (snd (DelayModel example_world)) example_world example_single_flight
         (Some ''delay''))) =
         example_single_flight\<lparr>period_day := Some pd, high_season := Some hs, min_diff := Some md,
           delay := Some (map (delay_of (snd (DelayModel example_world))) md)\<rparr>"
    by blast
  have pd: "pd = [Some Manana]" using p(1) example_single_flight_period_day by simp
  have hs: "hs = [0]" using p(2) example_single_flight_high_season by simp
  have md: "md = [20]" using p(3) example_single_flight_min_diff by simp
  have d: "map (delay_of (snd (DelayModel example_world))) [20] = [1]"
    by (simp add: delay_of_def DelayModel_def)
  show ?thesis
    using v1 v2 p(4) unfolding pd hs md d by simp
qed

text \<open>
  C9, as stated, fails: for a frame without the column \<^verbatim>\<open>Fecha-O\<close>, as the data of a
  prediction is, the call raises \<^verbatim>\<open>KeyError\<close> in the row-wise \<^verbatim>\<open>apply\<close>, and the frame of the
  caller has neither \<^verbatim>\<open>min_diff\<close> nor \<^verbatim>\<open>delay\<close> afterwards.
\<close>

theorem preprocess_without_actual_departure:
  "snd (snd (preprocess (snd (DelayModel example_world)) example_world
               (example_single_flight\<lparr>Fecha_O := None\<rparr>) None)) = Inl KeyError \<and>
   min_diff (fst (snd (preprocess (snd (DelayModel example_world)) example_world
               (example_single_flight\<lparr>Fecha_O := None\<rparr>) None))) = None \<and>
   delay (fst (snd (preprocess (snd (DelayModel example_world)) example_world
               (example_single_flight\<lparr>Fecha_O := None\<rparr>) None))) = None"
  by (simp add: preprocess_def Let_def get_period_day_def strptime_def valid_timestamp_def
      days_in_month_def is_leap_def time_of_def less_prod_def is_high_season_def datetime_of_def
      less_eq_prod_def)

section \<open>Projection onto the vocabulary\<close>

text \<open>The decimal rendering of integers is injective, so the month columns are distinct.\<close>

lemma digit_inj:
  assumes "a < 10" "b < 10" "''0123456789'' ! a = ''0123456789'' ! b"
  shows "a = b"
proof -
  have d: "distinct ''0123456789''" by simp
  from assms show ?thesis by (simp add: nth_eq_iff_index_eq[OF d])
qed

lemma digits_nonempty: "digits n \<noteq> []"
  by (subst digits.simps) simp

lemma digits_inj: "digits n = digits m \<Longrightarrow> n = m"
proof (induction n arbitrary: m rule: digits.induct)
  case (1 n)
  show ?case
  proof (cases "n < 10")
    case n: True
    show ?thesis
    proof (cases "m < 10")
      case True
      with n "1.prems" show ?thesis
        by (subst (asm) digits.simps, subst (asm) (2) digits.simps) (simp add: digit_inj)
    next
      case False
      with n "1.prems" digits_nonempty[of "m div 10"] show ?thesis
        by (subst (asm) digits.simps, subst (asm) (2) digits.simps) simp
    qed
  next
    case n: False
    show ?thesis
    proof (cases "m < 10")
      case True
      with n "1.prems" digits_nonempty[of "n div 10"] show ?thesis
        by (subst (asm) digits.simps, subst (asm) (2) digits.simps) simp
    next
      case False
      have e: "digits (n div 10) @ [''0123456789'' ! (n mod 10)]
             = digits (m div 10) @ [''0123456789'' ! (m mod 10)]"
        using "1.prems" n False
        by (subst (asm) digits.simps, subst (asm) (2) digits.simps) simp
      then have "digits (n div 10) = digits (m div 10)"
        and c: "''0123456789'' ! (n mod 10) = ''0123456789'' ! (m mod 10)"
        by simp_all
      from "1.IH"[OF n this(1)] have q: "n div 10 = m div 10" .
      have r: "n mod 10 = m mod 10" by (rule digit_inj[OF _ _ c]) simp_all
      from q r show ?thesis by (metis div_mult_mod_eq)
    qed
  qed
qed

lemma digits_chars: "set (digits n) \<subseteq> set ''0123456789''"
proof (induction n rule: digits.induct)
  case (1 n)
  have k: "\<And>i. i < 10 \<Longrightarrow> ''0123456789'' ! i \<in> set ''0123456789''"
    by (rule nth_mem) simp
  show ?case
  proof (cases "n < 10")
    case True
    with k[of n] show ?thesis by (subst digits.simps) simp
  next
    case False
    with "1.IH" k[of "n mod 10"] show ?thesis by (subst digits.simps) simp
  qed
qed

lemma digits_no_minus: "digits n \<noteq> CHR ''-'' # s"
proof
  assume "digits n = CHR ''-'' # s"
  then have "CHR ''-'' \<in> set (digits n)" by simp
  with digits_chars[of n] show False by auto
qed

lemma str_int_inj: "str_int a = str_int b \<Longrightarrow> a = b"
  using digits_inj[of "nat a" "nat b"] digits_inj[of "nat (- a)" "nat (- b)"]
    digits_no_minus[of "nat a"] digits_no_minus[of "nat b"]
  by (auto simp: str_int_def split: if_splits dest: sym)


lemma get_dummies_names:
  "map fst (get_dummies str col p) = map (\<lambda>v. p @ ''_'' @ str v) (sort (remdups col))"
  by (simp add: get_dummies_def comp_def)

lemma get_dummies_name_set:
  "fst ` set (get_dummies str col p) = (\<lambda>v. p @ ''_'' @ str v) ` set col"
  using arg_cong[OF get_dummies_names[of str col p], of set] by simp

lemma get_dummies_distinct:
  assumes "inj str"
  shows "distinct (map fst (get_dummies str col p))"
proof -
  have "inj_on (\<lambda>v. p @ ''_'' @ str v) (set (sort (remdups col)))"
    using assms by (auto simp: inj_on_def dest: injD)
  then show ?thesis by (simp add: get_dummies_names distinct_map)
qed

lemma get_dummies_map_of:
  assumes "inj str" "v \<in> set col"
  shows "map_of (get_dummies str col p) (p @ ''_'' @ str v)
           = Some (map (\<lambda>x. if x = v then 1 else 0) col)"
proof -
  have "(p @ ''_'' @ str v, map (\<lambda>x. if x = v then 1 else 0) col) \<in> set (get_dummies str col p)"
    using assms(2) by (auto simp: get_dummies_def)
  with get_dummies_distinct[OF assms(1), of col p] show ?thesis by simp
qed

lemma cell_get_dummies:
  assumes "inj str" "i < length col"
  shows "cell (get_dummies str col p) n i = (if n = p @ ''_'' @ str (col ! i) then 1 else 0)"
proof (cases "n \<in> (\<lambda>v. p @ ''_'' @ str v) ` set col")
  case True
  then obtain v where v: "v \<in> set col" "n = p @ ''_'' @ str v" by auto
  have "(n = p @ ''_'' @ str (col ! i)) = (col ! i = v)"
    using assms(1) v(2) by (auto dest: injD)
  with get_dummies_map_of[OF assms(1) v(1), of p] assms(2) v(2) show ?thesis
    by (simp add: cell_def)
next
  case False
  then have "map_of (get_dummies str col p) n = None"
    by (simp add: map_of_eq_None_iff get_dummies_name_set)
  moreover have "n \<noteq> p @ ''_'' @ str (col ! i)"
    using False assms(2) by auto
  ultimately show ?thesis by (simp add: cell_def)
qed

lemma cell_append:
  "cell (A @ B) n i = (if n \<in> fst ` set A then cell A n i else cell B n i)"
proof (cases "map_of A n")
  case None
  then have "n \<notin> fst ` set A" by (simp add: map_of_eq_None_iff)
  with None show ?thesis by (simp add: cell_def map_add_def)
next
  case (Some vals)
  then have "n \<in> fst ` set A" by (metis map_of_eq_None_iff option.distinct(1))
  with Some show ?thesis by (simp add: cell_def map_add_def)
qed


lemma index_less: "x \<in> set xs \<Longrightarrow> index xs x < length xs"
  by (induction xs) auto

lemma nth_index: "x \<in> set xs \<Longrightarrow> xs ! index xs x = x"
  by (induction xs) auto

text \<open>
  The loop over the columns writes, at each name of the vocabulary that is a column, the
  value of that column in its first row, and leaves the other entries.
\<close>

lemma fill_data_predict_cells:
  assumes "distinct names" "distinct (map fst cols)" "\<forall>(c, vals) \<in> set cols. vals \<noteq> []"
    "length row = length names"
  shows "fill_data_predict names cols row =
           Inr (map (\<lambda>(n, x). case map_of cols n of Some vals \<Rightarrow> vals ! 0 | None \<Rightarrow> x)
                  (zip names row))"
  using assms(2,3,4)
proof (induction cols arbitrary: row)
  case Nil
  then show ?case by (auto intro: nth_equalityI)
next
  case (Cons cv cols)
  obtain c vals where cv: "cv = (c, vals)" by (cases cv)
  from Cons.prems cv obtain v vs where vals: "vals = v # vs" by (cases vals) auto
  have d: "distinct (map fst cols)" "\<forall>(c, vals) \<in> set cols. vals \<noteq> []"
    and nc: "map_of cols c = None"
    using Cons.prems cv by (auto simp: map_of_eq_None_iff)
  show ?case
  proof (cases "c \<in> set names")
    case True
    let ?k = "index names c"
    have k: "?k < length names" "names ! ?k = c"
      using True by (simp_all add: index_less nth_index)
    have l: "length (row[?k := v]) = length names" using Cons.prems by simp
    have "map (\<lambda>(n, x). case map_of cols n of Some vals \<Rightarrow> vals ! 0 | None \<Rightarrow> x)
            (zip names (row[?k := v]))
        = map (\<lambda>(n, x). case map_of (cv # cols) n of Some vals \<Rightarrow> vals ! 0 | None \<Rightarrow> x)
            (zip names row)"
    proof (rule nth_equalityI)
      show "length (map (\<lambda>(n, x). case map_of cols n of Some vals \<Rightarrow> vals ! 0 | None \<Rightarrow> x)
            (zip names (row[?k := v])))
        = length (map (\<lambda>(n, x). case map_of (cv # cols) n of Some vals \<Rightarrow> vals ! 0 | None \<Rightarrow> x)
            (zip names row))"
        by simp
    next
      fix j
      assume "j < length (map (\<lambda>(n, x). case map_of cols n of Some vals \<Rightarrow> vals ! 0 | None \<Rightarrow> x)
            (zip names (row[?k := v])))"
      then have j: "j < length names" "j < length row" using Cons.prems by simp_all
      show "map (\<lambda>(n, x). case map_of cols n of Some vals \<Rightarrow> vals ! 0 | None \<Rightarrow> x)
            (zip names (row[?k := v])) ! j
        = map (\<lambda>(n, x). case map_of (cv # cols) n of Some vals \<Rightarrow> vals ! 0 | None \<Rightarrow> x)
            (zip names row) ! j"
      proof (cases "names ! j = c")
        case True
        with k j assms(1) have "j = ?k" by (metis nth_eq_iff_index_eq)
        with j k nc show ?thesis by (simp add: cv vals)
      next
        case False
        with k have "j \<noteq> ?k" by auto
        with j False show ?thesis by (simp add: cv)
      qed
    qed
    with Cons.IH[OF d l] True show ?thesis by (simp add: cv vals)
  next
    case False
    have "map (\<lambda>(n, x). case map_of cols n of Some vals \<Rightarrow> vals ! 0 | None \<Rightarrow> x) (zip names row)
        = map (\<lambda>(n, x). case map_of (cv # cols) n of Some vals \<Rightarrow> vals ! 0 | None \<Rightarrow> x)
            (zip names row)"
      using False by (intro map_cong refl) (auto simp: cv dest: set_zip_leftD)
    with Cons.IH[OF d Cons.prems(3)] False show ?thesis by (simp add: cv)
  qed
qed

lemma fill_data_predict_zero:
  assumes "distinct names" "distinct (map fst cols)" "\<forall>(c, vals) \<in> set cols. vals \<noteq> []"
  shows "fill_data_predict names cols (replicate (length names) 0)
           = Inr (map (\<lambda>n. cell cols n 0) names)"
proof -
  have "map (\<lambda>(n, x). case map_of cols n of Some vals \<Rightarrow> vals ! 0 | None \<Rightarrow> x)
          (zip names (replicate (length names) 0))
      = map (\<lambda>n. cell cols n 0) names"
    by (rule nth_equalityI) (simp_all add: cell_def)
  with fill_data_predict_cells[OF assms, of "replicate (length names) 0"] show ?thesis by simp
qed


lemma inj_str_int: "inj str_int"
  by (rule injI) (rule str_int_inj)

lemma encoded_cell:
  assumes "i < length opera" "length tipovuelo = length opera" "length mes = length opera"
  shows "cell (encoded opera tipovuelo mes) n i
           = (if n \<in> set (one_hot (opera ! i) (tipovuelo ! i) (mes ! i)) then 1 else 0)"
proof -
  have i: "i < length tipovuelo" "i < length mes" using assms by simp_all
  have o: "''OPERA_'' @ opera ! i \<in> fst ` set (get_dummies id opera ''OPERA'')"
    using assms(1) by (auto simp: get_dummies_name_set)
  have t: "''TIPOVUELO_'' @ tipovuelo ! i \<in> fst ` set (get_dummies id tipovuelo ''TIPOVUELO'')"
    using i(1) by (auto simp: get_dummies_name_set)
  show ?thesis
  proof (cases "n \<in> fst ` set (get_dummies id opera ''OPERA'')")
    case True
    then have "n \<noteq> ''TIPOVUELO_'' @ tipovuelo ! i" "n \<noteq> ''MES_'' @ str_int (mes ! i)"
      by (auto simp: get_dummies_name_set)
    with True show ?thesis
      by (simp add: cell_append cell_get_dummies[OF inj_on_id assms(1)] one_hot_def)
  next
    case no: False
    with o have n1: "n \<noteq> ''OPERA_'' @ opera ! i" by auto
    show ?thesis
    proof (cases "n \<in> fst ` set (get_dummies id tipovuelo ''TIPOVUELO'')")
      case True
      then have "n \<noteq> ''MES_'' @ str_int (mes ! i)"
        by (auto simp: get_dummies_name_set)
      with True no n1 show ?thesis
        by (simp add: cell_append cell_get_dummies[OF inj_on_id i(1)] one_hot_def)
    next
      case False
      with t have "n \<noteq> ''TIPOVUELO_'' @ tipovuelo ! i" by auto
      with False no n1 show ?thesis
        by (simp add: cell_append cell_get_dummies[OF inj_str_int i(2)] one_hot_def)
    qed
  qed
qed

lemma encoded_distinct: "distinct (map fst (encoded opera tipovuelo mes))"
  using get_dummies_distinct[OF inj_on_id, of opera "''OPERA''"]
    get_dummies_distinct[OF inj_on_id, of tipovuelo "''TIPOVUELO''"]
    get_dummies_distinct[OF inj_str_int, of mes "''MES''"]
  by (auto simp: get_dummies_names)

lemma get_dummies_length:
  "(c, vals) \<in> set (get_dummies str col p) \<Longrightarrow> length vals = length col"
  by (auto simp: get_dummies_def)

lemma encoded_length:
  assumes "length tipovuelo = length opera" "length mes = length opera"
    and "(c, vals) \<in> set (encoded opera tipovuelo mes)"
  shows "length vals = length opera"
  using assms by (auto dest: get_dummies_length)

lemma encoded_names:
  assumes "length tipovuelo = length opera" "length mes = length opera"
    and "c \<in> fst ` set (encoded opera tipovuelo mes)"
  shows "\<exists>i < length opera. c \<in> set (one_hot (opera ! i) (tipovuelo ! i) (mes ! i))"
proof -
  from assms(3) consider
      (o) v where "v \<in> set opera" "c = ''OPERA_'' @ v"
    | (t) v where "v \<in> set tipovuelo" "c = ''TIPOVUELO_'' @ v"
    | (m) v where "v \<in> set mes" "c = ''MES_'' @ str_int v"
    by (auto simp: image_Un get_dummies_name_set)
  then show ?thesis
  proof cases
    case o
    then obtain i where "i < length opera" "opera ! i = v" by (auto simp: in_set_conv_nth)
    with o show ?thesis by (auto simp: one_hot_def)
  next
    case t
    then obtain i where "i < length tipovuelo" "tipovuelo ! i = v" by (auto simp: in_set_conv_nth)
    with t assms(1) show ?thesis by (auto simp: one_hot_def)
  next
    case m
    then obtain i where "i < length mes" "mes ! i = v" by (auto simp: in_set_conv_nth)
    with m assms(2) show ?thesis by (auto simp: one_hot_def)
  qed
qed


lemma check_response_valid_batch:
  assumes "all_features_p w = Some features" "model self = Some (LogisticRegression cw (Some clf))"
    "distinct (top_10_features self)"
    "spec_first_error (replace_opera features) (f # fs) = None"
  shows "snd (check_response self w (f # fs))
           = Inr (Labels [clf (project (top_10_features self)
                                 (one_hot (OPERA f) (TIPOVUELO f) (MES f)))])"
proof -
  define E where "E = encoded (map OPERA (f # fs)) (map TIPOVUELO (f # fs)) (map MES (f # fs))"
  have c: "check_flights (replace_opera features) (f # fs) [] = Inr (f # fs)"
    using assms(4) by (simp add: check_flights_spec)
  have d: "distinct (map fst E)" unfolding E_def by (rule encoded_distinct)
  have n: "\<forall>(c, vals) \<in> set E. vals \<noteq> []"
  proof -
    have "\<And>c vals. (c, vals) \<in> set E \<Longrightarrow> length vals = length (map OPERA (f # fs))"
      unfolding E_def
      by (rule encoded_length[of "map TIPOVUELO (f # fs)" _ "map MES (f # fs)"]) simp_all
    then show ?thesis by fastforce
  qed
  have e: "\<And>n. cell E n 0
      = (if n \<in> set (one_hot (OPERA f) (TIPOVUELO f) (MES f)) then 1 else 0)"
    unfolding E_def
    using encoded_cell[of 0 "map OPERA (f # fs)" "map TIPOVUELO (f # fs)" "map MES (f # fs)"]
    by simp
  have "fill_data_predict (top_10_features self) E (replicate (length (top_10_features self)) 0)
      = Inr (project (top_10_features self) (one_hot (OPERA f) (TIPOVUELO f) (MES f)))"
    unfolding fill_data_predict_zero[OF assms(3) d n] project_def
    by (simp add: e)
  then show ?thesis
    using assms(1,2) c unfolding E_def by (simp add: check_response_def predict_def Let_def)
qed

lemma post_predict_valid_batch:
  assumes "all_features_p w = Some features" "model_h5 w = Some (LogisticRegression cw (Some clf))"
    "spec_first_error (replace_opera features) (f # fs) = None"
  shows "snd (post_predict w (f # fs))
           = OK (Labels [clf (project (top_10_features (snd (DelayModel w)))
                                (one_hot (OPERA f) (TIPOVUELO f) (MES f)))])"
proof -
  have a: "all_features_p (fst (DelayModel w)) = Some features"
    "model (snd (DelayModel w)) = Some (LogisticRegression cw (Some clf))"
    "distinct (top_10_features (snd (DelayModel w)))"
    using assms(1,2) by (simp_all add: DelayModel_def)
  from check_response_valid_batch[OF a assms(3)] show ?thesis
    by (auto simp: post_predict_def Let_def split: prod.splits)
qed

lemma preprocess_rows:
  assumes "snd (snd (preprocess self w data tc)) = Inr r"
    "OPERA_col data = Some opera" "TIPOVUELO_col data = Some tipovuelo" "MES_col data = Some mes"
    "length tipovuelo = length opera" "length mes = length opera"
  shows "\<forall>i < length opera. row_of (features_of r) i
           = project (top_10_features self) (one_hot (opera ! i) (tipovuelo ! i) (mes ! i))"
    and "\<forall>c \<in> set (top_10_features self).
           \<exists>i < length opera. c \<in> set (one_hot (opera ! i) (tipovuelo ! i) (mes ! i))"
proof -
  define E where "E = encoded opera tipovuelo mes"
  from assms(1) obtain fi fo pd hs md opera' tipo' mes' sel where
    p: "Fecha_I data = Some fi" "Fecha_O data = Some fo"
    "series_apply get_period_day fi = Inr pd"
    "series_apply is_high_season fi = Inr hs"
    "series_apply get_min_diff (zip fo fi) = Inr md"
    "OPERA_col data = Some opera'" "TIPOVUELO_col data = Some tipo'" "MES_col data = Some mes'"
    "select_columns (encoded opera' tipo' mes') (top_10_features self) = Inr sel"
    "fi \<noteq> []"
    by (rule preprocess_Inr)
  have eq: "opera' = opera" "tipo' = tipovuelo" "mes' = mes" using p(6-8) assms(2-4) by simp_all
  have f: "features_of r = sel"
    using assms(1) by (auto simp: preprocess_success[OF p] split: if_splits)
  have q: "select_columns E (top_10_features self) = Inr sel"
    using p(9) unfolding eq E_def .
  have s: "\<forall>c \<in> set (top_10_features self). c \<in> fst ` set E"
    and sel: "sel = map (\<lambda>c. (c, the (map_of E c))) (top_10_features self)"
    using q by (auto simp: select_columns_def split: if_splits)
  show "\<forall>c \<in> set (top_10_features self).
           \<exists>i < length opera. c \<in> set (one_hot (opera ! i) (tipovuelo ! i) (mes ! i))"
    using s encoded_names[OF assms(5,6)] unfolding E_def by blast
  have c: "\<And>c i. c \<in> set (top_10_features self) \<Longrightarrow> the (map_of E c) ! i = cell E c i"
  proof -
    fix c i assume "c \<in> set (top_10_features self)"
    with s have "c \<in> fst ` set E" by blast
    then obtain vals where "map_of E c = Some vals"
      by (metis map_of_eq_None_iff not_Some_eq)
    then show "the (map_of E c) ! i = cell E c i" by (simp add: cell_def)
  qed
  show "\<forall>i < length opera. row_of (features_of r) i
           = project (top_10_features self) (one_hot (opera ! i) (tipovuelo ! i) (mes ! i))"
  proof (intro allI impI)
    fix i assume i: "i < length opera"
    have e: "\<And>n. cell E n i
        = (if n \<in> set (one_hot (opera ! i) (tipovuelo ! i) (mes ! i)) then 1 else 0)"
      unfolding E_def by (rule encoded_cell[OF i assms(5,6)])
    have "row_of sel i = map (\<lambda>c. cell E c i) (top_10_features self)"
      unfolding sel row_of_def by (simp add: comp_def c)
    also have "\<dots> = project (top_10_features self)
        (one_hot (opera ! i) (tipovuelo ! i) (mes ! i))"
      unfolding project_def by (simp add: e)
    finally show "row_of (features_of r) i
           = project (top_10_features self) (one_hot (opera ! i) (tipovuelo ! i) (mes ! i))"
      by (simp add: f)
  qed
qed


lemma project_all_zero:
  "set columns \<inter> set vocabulary = {} \<Longrightarrow>
     project vocabulary columns = replicate (length vocabulary) 0"
  by (auto simp: project_def map_replicate_const[symmetric] intro!: map_cong)

lemma preprocess_select_error:
  assumes "Fecha_I data = Some fi" "Fecha_O data = Some fo"
    "series_apply get_period_day fi = Inr pd"
    "series_apply is_high_season fi = Inr hs"
    "series_apply get_min_diff (zip fo fi) = Inr md"
    "OPERA_col data = Some opera" "TIPOVUELO_col data = Some tipo" "MES_col data = Some mes"
    "select_columns (encoded opera tipo mes) (top_10_features self) = Inl e"
    "fi \<noteq> []"
  shows "snd (snd (preprocess self w data tc)) = Inl e"
  using assms by (simp add: preprocess_def Let_def)

text \<open>
  C3, as stated, fails in \<open>preprocess\<close>: for a frame of one flight whose airline, type
  and month are outside the vocabulary, the selection of the vocabulary columns raises
  \<^verbatim>\<open>KeyError\<close>; no all-zero vector is returned.
\<close>

theorem preprocess_absent_column_raises:
  "snd (snd (preprocess (snd (DelayModel example_world)) example_world example_single_flight None))
     = Inl KeyError"
proof -
  have o: "Fecha_I example_single_flight = Some (the (Fecha_I example_single_flight))"
    "Fecha_O example_single_flight = Some (the (Fecha_O example_single_flight))"
    "OPERA_col example_single_flight = Some (the (OPERA_col example_single_flight))"
    "TIPOVUELO_col example_single_flight = Some (the (TIPOVUELO_col example_single_flight))"
    "MES_col example_single_flight = Some (the (MES_col example_single_flight))"
    by simp_all
  have a: "series_apply get_period_day (the (Fecha_I example_single_flight)) = Inr [Some Manana]"
    by (simp add: get_period_day_def strptime_def valid_timestamp_def days_in_month_def
        is_leap_def time_of_def less_prod_def Let_def)
  have b: "series_apply is_high_season (the (Fecha_I example_single_flight)) = Inr [0]"
    by (simp add: is_high_season_def strptime_def valid_timestamp_def days_in_month_def
        is_leap_def datetime_of_def less_prod_def less_eq_prod_def Let_def)
  have c: "series_apply get_min_diff
      (zip (the (Fecha_O example_single_flight)) (the (Fecha_I example_single_flight))) = Inr [20]"
    by (simp add: get_min_diff_def strptime_def valid_timestamp_def days_in_month_def
        is_leap_def total_seconds_def toordinal_def seconds_of_day_def)
  have d: "select_columns
      (encoded (the (OPERA_col example_single_flight)) (the (TIPOVUELO_col example_single_flight))
         (the (MES_col example_single_flight)))
      (top_10_features (snd (DelayModel example_world))) = Inl KeyError"
    by code_simp
  have n: "the (Fecha_I example_single_flight) \<noteq> []" by simp
  show ?thesis by (rule preprocess_select_error[OF o(1,2) a b c o(3,4,5) d n])
qed


lemma encoded_names_conv:
  assumes "length tipovuelo = length opera" "length mes = length opera" "i < length opera"
    and "c \<in> set (one_hot (opera ! i) (tipovuelo ! i) (mes ! i))"
  shows "c \<in> fst ` set (encoded opera tipovuelo mes)"
proof -
  have "opera ! i \<in> set opera" "tipovuelo ! i \<in> set tipovuelo" "mes ! i \<in> set mes"
    using assms(1-3) by simp_all
  with assms(4) show ?thesis
    by (auto simp: one_hot_def image_Un get_dummies_name_set)
qed

lemma encoded_names_iff:
  assumes "length tipovuelo = length opera" "length mes = length opera"
  shows "(c \<in> fst ` set (encoded opera tipovuelo mes))
       = (\<exists>i < length opera. c \<in> set (one_hot (opera ! i) (tipovuelo ! i) (mes ! i)))"
  using encoded_names[OF assms] encoded_names_conv[OF assms] by blast

lemma preprocess_projects_or_raises:
  assumes "Fecha_I data = Some fi" "Fecha_O data = Some fo" "fi \<noteq> []"
    "\<forall>t \<in> set fi. valid_timestamp t" "\<forall>t \<in> set fo. valid_timestamp t"
    "OPERA_col data = Some opera" "TIPOVUELO_col data = Some tipovuelo" "MES_col data = Some mes"
    "length tipovuelo = length opera" "length mes = length opera"
  shows "if \<forall>c \<in> set (top_10_features self).
              \<exists>i < length opera. c \<in> set (one_hot (opera ! i) (tipovuelo ! i) (mes ! i))
         then \<exists>r. snd (snd (preprocess self w data tc)) = Inr r \<and>
                (\<forall>i < length opera. row_of (features_of r) i
                   = project (top_10_features self) (one_hot (opera ! i) (tipovuelo ! i) (mes ! i)))
         else snd (snd (preprocess self w data tc)) = Inl KeyError"
proof -
  from assms(4,5) obtain pd hs md where
    d: "series_apply get_period_day fi = Inr pd" "series_apply is_high_season fi = Inr hs"
    "series_apply get_min_diff (zip fo fi) = Inr md"
    by (rule derived_columns_exist)
  define E where "E = encoded opera tipovuelo mes"
  have n: "\<And>c. (c \<in> fst ` set E)
       = (\<exists>i < length opera. c \<in> set (one_hot (opera ! i) (tipovuelo ! i) (mes ! i)))"
    unfolding E_def by (rule encoded_names_iff[OF assms(9,10)])
  show ?thesis
  proof (cases "\<forall>c \<in> set (top_10_features self).
              \<exists>i < length opera. c \<in> set (one_hot (opera ! i) (tipovuelo ! i) (mes ! i))")
    case True
    then have "\<forall>c \<in> set (top_10_features self). c \<in> fst ` set E" by (simp add: n)
    then have "select_columns E (top_10_features self)
        = Inr (map (\<lambda>c. (c, the (map_of E c))) (top_10_features self))"
      by (simp add: select_columns_def)
    note s = preprocess_success[OF assms(1,2) d assms(6,7,8) this[unfolded E_def] assms(3)]
    have r: "snd (snd (preprocess self w data tc))
        = Inr (if tc \<noteq> None \<and> tc \<noteq> Some []
               then Features_Target (map (\<lambda>c. (c, the (map_of E c))) (top_10_features self))
                      (map (delay_of self) md)
               else Features (map (\<lambda>c. (c, the (map_of E c))) (top_10_features self)))"
      unfolding E_def by (simp add: s)
    from preprocess_rows(1)[OF r assms(6,7,8,9,10)] r True show ?thesis by auto
  next
    case False
    then have "\<not> (\<forall>c \<in> set (top_10_features self). c \<in> fst ` set E)" by (simp add: n)
    then have "select_columns E (top_10_features self) = Inl KeyError"
      by (simp add: select_columns_def)
    from preprocess_select_error[OF assms(1,2) d assms(6,7,8) this[unfolded E_def] assms(3)] False
    show ?thesis by auto
  qed
qed

text \<open>
  C3, as the code has it. A request of one valid flight is answered with the label of
  the projection of the one-hot columns of the flight onto the vocabulary: 1 at the
  columns of the vocabulary among them, 0 at the others, any other column dropped; when
  none of the three is in the vocabulary the row is the all-zero row of length 10. In
  \<open>preprocess\<close>, for a frame with rows whose timestamps parse and whose columns \<^verbatim>\<open>OPERA\<close>,
  \<^verbatim>\<open>TIPOVUELO\<close> and \<^verbatim>\<open>MES\<close> are present: when every column of the vocabulary is a one-hot
  column of some row, the call returns and every row of the returned features is that
  projection of the row of the frame; when some column of the vocabulary is a one-hot
  column of no row, the call raises \<^verbatim>\<open>KeyError\<close>, and no column is filled with zeros.
\<close>

theorem encoding_projects_onto_vocabulary:
  "(all_features_p w = Some features \<and> model_h5 w = Some (LogisticRegression cw (Some clf)) \<and>
    spec_first_error (replace_opera features) [f] = None \<longrightarrow>
      snd (post_predict w [f])
        = OK (Labels [clf (project (top_10_features (snd (DelayModel w)))
                             (one_hot (OPERA f) (TIPOVUELO f) (MES f)))]) \<and>
      (set (one_hot (OPERA f) (TIPOVUELO f) (MES f)) \<inter> set (top_10_features (snd (DelayModel w))) = {}
         \<longrightarrow> snd (post_predict w [f]) = OK (Labels [clf [0, 0, 0, 0, 0, 0, 0, 0, 0, 0]]))) \<and>
   (Fecha_I data = Some fi \<and> Fecha_O data = Some fo \<and> fi \<noteq> [] \<and>
    (\<forall>t \<in> set fi. valid_timestamp t) \<and> (\<forall>t \<in> set fo. valid_timestamp t) \<and>
    OPERA_col data = Some opera \<and> TIPOVUELO_col data = Some tipovuelo \<and> MES_col data = Some mes \<and>
    length tipovuelo = length opera \<and> length mes = length opera \<longrightarrow>
      (if \<forall>c \<in> set (top_10_features self).
            \<exists>i < length opera. c \<in> set (one_hot (opera ! i) (tipovuelo ! i) (mes ! i))
       then \<exists>r. snd (snd (preprocess self w' data tc)) = Inr r \<and>
              (\<forall>i < length opera. row_of (features_of r) i
                 = project (top_10_features self) (one_hot (opera ! i) (tipovuelo ! i) (mes ! i)))
       else snd (snd (preprocess self w' data tc)) = Inl KeyError))"
proof (intro conjI impI)
  assume a: "all_features_p w = Some features \<and>
    model_h5 w = Some (LogisticRegression cw (Some clf)) \<and>
    spec_first_error (replace_opera features) [f] = None"
  then have a1: "all_features_p w = Some features"
    and a2: "model_h5 w = Some (LogisticRegression cw (Some clf))"
    and a3: "spec_first_error (replace_opera features) [f] = None"
    by blast+
  show p: "snd (post_predict w [f])
        = OK (Labels [clf (project (top_10_features (snd (DelayModel w)))
                             (one_hot (OPERA f) (TIPOVUELO f) (MES f)))])"
    by (rule post_predict_valid_batch[OF a1 a2 a3])
  assume "set (one_hot (OPERA f) (TIPOVUELO f) (MES f)) \<inter>
      set (top_10_features (snd (DelayModel w))) = {}"
  from project_all_zero[OF this] have
    "project (top_10_features (snd (DelayModel w))) (one_hot (OPERA f) (TIPOVUELO f) (MES f))
       = [0, 0, 0, 0, 0, 0, 0, 0, 0, 0]"
    by (simp add: DelayModel_def)
  with p show "snd (post_predict w [f]) = OK (Labels [clf [0, 0, 0, 0, 0, 0, 0, 0, 0, 0]])"
    by simp
next
  assume b: "Fecha_I data = Some fi \<and> Fecha_O data = Some fo \<and> fi \<noteq> [] \<and>
    (\<forall>t \<in> set fi. valid_timestamp t) \<and> (\<forall>t \<in> set fo. valid_timestamp t) \<and>
    OPERA_col data = Some opera \<and> TIPOVUELO_col data = Some tipovuelo \<and> MES_col data = Some mes \<and>
    length tipovuelo = length opera \<and> length mes = length opera"
  then have b1: "Fecha_I data = Some fi" "Fecha_O data = Some fo" "fi \<noteq> []"
    "\<forall>t \<in> set fi. valid_timestamp t" "\<forall>t \<in> set fo. valid_timestamp t"
    "OPERA_col data = Some opera" "TIPOVUELO_col data = Some tipovuelo" "MES_col data = Some mes"
    "length tipovuelo = length opera" "length mes = length opera"
    by blast+
  show "if \<forall>c \<in> set (top_10_features self).
            \<exists>i < length opera. c \<in> set (one_hot (opera ! i) (tipovuelo ! i) (mes ! i))
       then \<exists>r. snd (snd (preprocess self w' data tc)) = Inr r \<and>
              (\<forall>i < length opera. row_of (features_of r) i
                 = project (top_10_features self) (one_hot (opera ! i) (tipovuelo ! i) (mes ! i)))
       else snd (snd (preprocess self w' data tc)) = Inl KeyError"
    by (rule preprocess_projects_or_raises[OF b1])
qed

text \<open>
  A request of one flight outside the vocabulary is labelled on the all-zero row, and
  the fourth row of the example frame is encoded by its three columns.
\<close>

theorem encoding_projects_onto_vocabulary_witness:
  "all_features_p example_world = Some example_features \<and>
   model_h5 example_world = Some (LogisticRegression [(1, 3 / 4), (0, 1 / 4)] (Some sum_list)) \<and>
   spec_first_error (replace_opera example_features) [\<lparr>OPERA = ''Aerolineas Argentinas'', TIPOVUELO = ''N'', MES = 3\<rparr>] = None \<and>
   set (one_hot ''Aerolineas Argentinas'' ''N'' 3) \<inter>
     set (top_10_features (snd (DelayModel example_world))) = {} \<and>
   snd (post_predict example_world [\<lparr>OPERA = ''Aerolineas Argentinas'', TIPOVUELO = ''N'', MES = 3\<rparr>]) = OK (Labels [0]) \<and>
   snd (snd (preprocess (snd (DelayModel example_world)) example_world example_frame None))
     = Inr (Features
        [(''OPERA_Latin American Wings'', [1, 0, 0, 0, 0]),
         (''MES_7'', [1, 0, 0, 0, 0]), (''MES_10'', [0, 1, 0, 0, 0]),
         (''OPERA_Grupo LATAM'', [0, 1, 0, 0, 1]),
         (''MES_12'', [0, 0, 1, 0, 0]), (''TIPOVUELO_I'', [1, 0, 0, 1, 0]),
         (''MES_4'', [0, 0, 0, 1, 0]), (''MES_11'', [0, 0, 0, 0, 1]),
         (''OPERA_Sky Airline'', [0, 0, 1, 0, 0]),
         (''OPERA_Copa Air'', [0, 0, 0, 1, 0])]) \<and>
   row_of
        [(''OPERA_Latin American Wings'', [1, 0, 0, 0, 0]),
         (''MES_7'', [1, 0, 0, 0, 0]), (''MES_10'', [0, 1, 0, 0, 0]),
         (''OPERA_Grupo LATAM'', [0, 1, 0, 0, 1]),
         (''MES_12'', [0, 0, 1, 0, 0]), (''TIPOVUELO_I'', [1, 0, 0, 1, 0]),
         (''MES_4'', [0, 0, 0, 1, 0]), (''MES_11'', [0, 0, 0, 0, 1]),
         (''OPERA_Sky Airline'', [0, 0, 1, 0, 0]),
         (''OPERA_Copa Air'', [0, 0, 0, 1, 0])] 3
     = project (top_10_features (snd (DelayModel example_world))) (one_hot ''Copa Air'' ''I'' 4) \<and>
   project (top_10_features (snd (DelayModel example_world))) (one_hot ''Copa Air'' ''I'' 4)
     = [0, 0, 0, 0, 0, 1, 1, 0, 0, 1]"
proof -
  have h1: "all_features_p example_world = Some example_features" by simp
  have h2: "model_h5 example_world = Some (LogisticRegression [(1, 3 / 4), (0, 1 / 4)] (Some sum_list))"
    by simp
  have h3: "spec_first_error (replace_opera example_features) [\<lparr>OPERA = ''Aerolineas Argentinas'', TIPOVUELO = ''N'', MES = 3\<rparr>] = None"
    by code_simp
  have h4: "set (one_hot (OPERA \<lparr>OPERA = ''Aerolineas Argentinas'', TIPOVUELO = ''N'', MES = 3\<rparr>) (TIPOVUELO \<lparr>OPERA = ''Aerolineas Argentinas'', TIPOVUELO = ''N'', MES = 3\<rparr>) (MES \<lparr>OPERA = ''Aerolineas Argentinas'', TIPOVUELO = ''N'', MES = 3\<rparr>)) \<inter>
     set (top_10_features (snd (DelayModel example_world))) = {}"
    by code_simp
  have g: "snd (snd (preprocess (snd (DelayModel example_world)) example_world example_frame None))
     = Inr (Features
        [(''OPERA_Latin American Wings'', [1, 0, 0, 0, 0]),
         (''MES_7'', [1, 0, 0, 0, 0]), (''MES_10'', [0, 1, 0, 0, 0]),
         (''OPERA_Grupo LATAM'', [0, 1, 0, 0, 1]),
         (''MES_12'', [0, 0, 1, 0, 0]), (''TIPOVUELO_I'', [1, 0, 0, 1, 0]),
         (''MES_4'', [0, 0, 0, 1, 0]), (''MES_11'', [0, 0, 0, 0, 1]),
         (''OPERA_Sky Airline'', [0, 0, 1, 0, 0]),
         (''OPERA_Copa Air'', [0, 0, 0, 1, 0])])"
    by (simp add: example_frame_preprocess)
  have c: "project (top_10_features (snd (DelayModel example_world))) (one_hot ''Copa Air'' ''I'' 4)
     = [0, 0, 0, 0, 0, 1, 1, 0, 0, 1]"
    by code_simp
  have vi: "\<forall>t \<in> set (the (Fecha_I example_frame)). valid_timestamp t"
    and vo: "\<forall>t \<in> set (the (Fecha_O example_frame)). valid_timestamp t"
    by (simp_all add: valid_timestamp_def days_in_month_def is_leap_def)
  have k: "Fecha_I example_frame = Some (the (Fecha_I example_frame))"
    "Fecha_O example_frame = Some (the (Fecha_O example_frame))"
    "the (Fecha_I example_frame) \<noteq> []"
    "OPERA_col example_frame = Some (the (OPERA_col example_frame))"
    "TIPOVUELO_col example_frame = Some (the (TIPOVUELO_col example_frame))"
    "MES_col example_frame = Some (the (MES_col example_frame))"
    "length (the (TIPOVUELO_col example_frame)) = length (the (OPERA_col example_frame))"
    "length (the (MES_col example_frame)) = length (the (OPERA_col example_frame))"
    by simp_all
  note T = encoding_projects_onto_vocabulary[where w = example_world
      and features = example_features and cw = "[(1, 3 / 4), (0, 1 / 4)]" and clf = sum_list
      and f = "\<lparr>OPERA = ''Aerolineas Argentinas'', TIPOVUELO = ''N'', MES = 3\<rparr>"
      and self = "snd (DelayModel example_world)" and w' = example_world
      and data = example_frame and tc = None
      and fi = "the (Fecha_I example_frame)" and fo = "the (Fecha_O example_frame)"
      and opera = "the (OPERA_col example_frame)"
      and tipovuelo = "the (TIPOVUELO_col example_frame)"
      and mes = "the (MES_col example_frame)"]
  have "snd (post_predict example_world [\<lparr>OPERA = ''Aerolineas Argentinas'', TIPOVUELO = ''N'', MES = 3\<rparr>])
      = OK (Labels [sum_list [0, 0, 0, 0, 0, 0, 0, 0, 0, 0]])"
    using T[THEN conjunct1] h1 h2 h3 h4 by blast
  then have p1: "snd (post_predict example_world [\<lparr>OPERA = ''Aerolineas Argentinas'', TIPOVUELO = ''N'', MES = 3\<rparr>]) = OK (Labels [0])"
    by simp
  from T[THEN conjunct2] k vi vo
  have i: "if \<forall>c \<in> set (top_10_features (snd (DelayModel example_world))).
            \<exists>i < length (the (OPERA_col example_frame)).
              c \<in> set (one_hot (the (OPERA_col example_frame) ! i)
                     (the (TIPOVUELO_col example_frame) ! i) (the (MES_col example_frame) ! i))
       then \<exists>r. snd (snd (preprocess (snd (DelayModel example_world)) example_world
                     example_frame None)) = Inr r \<and>
              (\<forall>i < length (the (OPERA_col example_frame)). row_of (features_of r) i
                 = project (top_10_features (snd (DelayModel example_world)))
                     (one_hot (the (OPERA_col example_frame) ! i)
                        (the (TIPOVUELO_col example_frame) ! i) (the (MES_col example_frame) ! i)))
       else snd (snd (preprocess (snd (DelayModel example_world)) example_world
                     example_frame None)) = Inl KeyError"
    (is "if ?C then ?A else ?B")
    by blast
  have "?C"
  proof (rule ccontr)
    assume "\<not> ?C"
    with i have "?B" by (simp only: if_False)
    with g show False by (simp only: sum.distinct)
  qed
  with i have "?A" by (simp only: if_True)
  then obtain r where r: "snd (snd (preprocess (snd (DelayModel example_world)) example_world
                     example_frame None)) = Inr r"
    and rows: "\<forall>i < length (the (OPERA_col example_frame)). row_of (features_of r) i
                 = project (top_10_features (snd (DelayModel example_world)))
                     (one_hot (the (OPERA_col example_frame) ! i)
                        (the (TIPOVUELO_col example_frame) ! i) (the (MES_col example_frame) ! i))"
    by blast
  from r g have "r = Features
        [(''OPERA_Latin American Wings'', [1, 0, 0, 0, 0]),
         (''MES_7'', [1, 0, 0, 0, 0]), (''MES_10'', [0, 1, 0, 0, 0]),
         (''OPERA_Grupo LATAM'', [0, 1, 0, 0, 1]),
         (''MES_12'', [0, 0, 1, 0, 0]), (''TIPOVUELO_I'', [1, 0, 0, 1, 0]),
         (''MES_4'', [0, 0, 0, 1, 0]), (''MES_11'', [0, 0, 0, 0, 1]),
         (''OPERA_Sky Airline'', [0, 0, 1, 0, 0]),
         (''OPERA_Copa Air'', [0, 0, 0, 1, 0])]"
    by (simp only: sum.inject)
  with rows[rule_format, of 3] have p3: "row_of
        [(''OPERA_Latin American Wings'', [1, 0, 0, 0, 0]),
         (''MES_7'', [1, 0, 0, 0, 0]), (''MES_10'', [0, 1, 0, 0, 0]),
         (''OPERA_Grupo LATAM'', [0, 1, 0, 0, 1]),
         (''MES_12'', [0, 0, 1, 0, 0]), (''TIPOVUELO_I'', [1, 0, 0, 1, 0]),
         (''MES_4'', [0, 0, 0, 1, 0]), (''MES_11'', [0, 0, 0, 0, 1]),
         (''OPERA_Sky Airline'', [0, 0, 1, 0, 0]),
         (''OPERA_Copa Air'', [0, 0, 0, 1, 0])] 3
     = project (top_10_features (snd (DelayModel example_world))) (one_hot ''Copa Air'' ''I'' 4)"
    by simp
  show ?thesis using h1 h2 h3 h4 p1 g p3 c by simp
qed

section \<open>The ranges of the high season\<close>

lemma midnight_le:
  fixes y m d h mi s M D :: nat
  shows "((y, M, D, 0, 0, 0) \<le> (y, m, d, h, mi, s)) = (M < m \<or> (M = m \<and> D \<le> d))"
  by (auto simp: less_eq_prod_def less_prod_def)

lemma le_midnight:
  fixes y m d h mi s M D :: nat
  shows "((y, m, d, h, mi, s) \<le> (y, M, D, 0, 0, 0))
       = (m < M \<or> (m = M \<and> (d < D \<or> (d = D \<and> h = 0 \<and> mi = 0 \<and> s = 0))))"
  by (auto simp: less_eq_prod_def less_prod_def)

lemma seconds_of_day_zero: "(seconds_of_day t = 0) = (hour t = 0 \<and> minute t = 0 \<and> second t = 0)"
  by (auto simp: seconds_of_day_def)

text \<open>
  What \<open>is_high_season\<close> computes for a timestamp that parses: 15 to 30 December, January
  and February, 1 and 2 March, 15 to 30 July and 11 to 29 September at any time of day,
  and the last day of each range (31 December, 3 March, 31 July, 30 September) at
  00:00:00 only.
\<close>

lemma is_high_season_ranges:
  assumes "valid_timestamp t"
  shows "is_high_season t = Inr (if
      (month t = 12 \<and> 15 \<le> day t \<and> (day t < 31 \<or> (day t = 31 \<and> seconds_of_day t = 0))) \<or>
      month t = 1 \<or> month t = 2 \<or>
      (month t = 3 \<and> (day t < 3 \<or> (day t = 3 \<and> seconds_of_day t = 0))) \<or>
      (month t = 7 \<and> 15 \<le> day t \<and> (day t < 31 \<or> (day t = 31 \<and> seconds_of_day t = 0))) \<or>
      (month t = 9 \<and> 11 \<le> day t \<and> (day t < 30 \<or> (day t = 30 \<and> seconds_of_day t = 0)))
    then 1 else 0)"
proof -
  have m: "1 \<le> month t" "month t \<le> 12" and d: "1 \<le> day t"
    using assms by (simp_all add: valid_timestamp_def)
  have e: "is_high_season t = Inr (if
      ((year t, 12, 15, 0, 0, 0) \<le> datetime_of t \<and> datetime_of t \<le> (year t, 12, 31, 0, 0, 0)) \<or>
      ((year t, 1, 1, 0, 0, 0) \<le> datetime_of t \<and> datetime_of t \<le> (year t, 3, 3, 0, 0, 0)) \<or>
      ((year t, 7, 15, 0, 0, 0) \<le> datetime_of t \<and> datetime_of t \<le> (year t, 7, 31, 0, 0, 0)) \<or>
      ((year t, 9, 11, 0, 0, 0) \<le> datetime_of t \<and> datetime_of t \<le> (year t, 9, 30, 0, 0, 0))
      then 1 else 0)"
    by (simp add: is_high_season_def strptime_valid[OF assms] Let_def)
  from month_cases[OF m] show ?thesis
    unfolding e datetime_of_def midnight_le le_midnight seconds_of_day_zero
    by (elim disjE) (use d in simp_all)
qed

end
